theory Spec2Isabelle
  imports Complex_Main
begin

section \<open>Values, exceptions and message texts\<close>

text \<open>
  The server is a Node.js program (\<^verbatim>\<open>src/index.ts\<close>). Tool arguments arrive as JSON values
  and are only cast (\<^verbatim>\<open>args.filepath as string\<close>), never checked, so an operation may
  receive any JSON value, or \<^verbatim>\<open>undefined\<close> for a missing key.
  A string is modelled as a \<^typ>\<open>string\<close>: an ASCII character as itself, any other
  character as the bytes of its UTF-8 encoding. \<^verbatim>\<open>startsWith\<close>, \<^verbatim>\<open>includes\<close> and
  the path functions, which look for \<^verbatim>\<open>/\<close> and \<^verbatim>\<open>.\<close> only, act on such strings as
  they act on the originals.
\<close>

datatype jsval =
    JUndefined
  | JNull
  | JBool bool
  | JNum int
  | JStr string
  | JObj

text \<open>
  Thrown values and message texts. A message built by a template literal is a constructor
  that carries the interpolated values, in the order of the source:
  \<^item> \<open>Forbidden b\<close>: the text of line 67, "access to this directory is forbidden: b";
  \<^item> \<open>NotAllowed roots\<close>: line 81, "path is not allowed; accessible paths: roots";
  \<^item> \<open>InvalidPath e\<close>: line 90, "invalid path: e";
  \<^item> \<open>BadExtension ext exts\<close>: line 101, "file extension ext is not allowed; allowed: exts";
  \<^item> \<open>ReadFailed e\<close>, \<open>WriteFailed e\<close>, \<open>ListFailed e\<close>, \<open>SampleFailed e\<close>: the
    texts of lines 338, 370, 398 and 478, each followed by the caught value \<open>e\<close>;
  \<^item> \<open>UnknownTool name\<close>: line 297;
  \<^item> \<open>LibraryText s\<close>: the message of an error raised by Node itself;
  \<^item> \<open>NoMessage\<close>: the message of \<^verbatim>\<open>new Error(undefined)\<close>.
  \<open>JsError m\<close> is \<^verbatim>\<open>new Error(m)\<close>; \<open>JsTypeError\<close> is the \<^verbatim>\<open>TypeError\<close> that Node's
  \<^verbatim>\<open>path\<close> functions throw for an argument that is not a string; \<open>JsSystemError\<close> is an
  error of the \<^verbatim>\<open>fs\<close> module (\<^verbatim>\<open>ENOENT\<close>, \<^verbatim>\<open>EACCES\<close>, ...).
\<close>

datatype exn =
    JsError msg
  | JsTypeError string
  | JsSystemError string
and msg =
    Forbidden string
  | NotAllowed "string list"
  | InvalidPath exn
  | BadExtension string "string list"
  | ReadFailed exn
  | WriteFailed exn
  | ListFailed exn
  | SampleFailed exn
  | UnknownTool string
  | LibraryText string
  | NoMessage

text \<open>\<^verbatim>\<open>error.message\<close> of a caught value; every thrown value here is an \<^verbatim>\<open>Error\<close>.\<close>

fun exn_message :: "exn \<Rightarrow> msg" where
  "exn_message (JsError m) = m"
| "exn_message (JsTypeError s) = LibraryText s"
| "exn_message (JsSystemError s) = LibraryText s"

section \<open>The host environment\<close>

text \<open>
  What the program reads from \<^verbatim>\<open>process\<close>, \<^verbatim>\<open>os\<close> and the clock: each field is the
  value of the call it is named after. Memory sizes are byte counts, \<open>os_uptime\<close> is in
  seconds, \<open>os_cpus\<close> is the length of \<^verbatim>\<open>os.cpus()\<close>, and \<open>date_now\<close> is
  \<^verbatim>\<open>new Date().toLocaleString("ja-JP")\<close>. \<^verbatim>\<open>process.cwd()\<close> is assumed not to fail.
  \<open>String_toLowerCase\<close> is the runtime's \<^verbatim>\<open>String.prototype.toLowerCase\<close>, which follows
  the case tables of Unicode; it is a parameter, and what is known of it is stated where
  it is needed (\<open>js_lowering\<close> below).
\<close>

record env =
  process_cwd :: string
  process_version :: string
  os_homedir :: string
  os_tmpdir :: string
  os_platform :: string
  os_arch :: string
  os_release :: string
  os_hostname :: string
  os_uptime :: real
  os_totalmem :: nat
  os_freemem :: nat
  os_cpus :: nat
  date_now :: string
  String_toLowerCase :: "string \<Rightarrow> string"

section \<open>Node's POSIX path functions\<close>

text \<open>
  \<^verbatim>\<open>path.resolve\<close>, \<^verbatim>\<open>path.extname\<close> and \<^verbatim>\<open>path.dirname\<close> belong to Node's library
  (\<^verbatim>\<open>lib/path.js\<close>, the \<^verbatim>\<open>posix\<close> variant). They are modelled on the segments between
  separators, which is what the library's character loops compute.
\<close>

definition startsWith :: "string \<Rightarrow> string \<Rightarrow> bool" where
  "startsWith s t = (take (length t) s = t)"

fun split_sep :: "string \<Rightarrow> string list" where
  "split_sep [] = [[]]"
| "split_sep (c # cs) =
     (if c = CHR ''/'' then [] # split_sep cs
      else (case split_sep cs of [] \<Rightarrow> [[c]] | s # ss \<Rightarrow> (c # s) # ss))"

fun join_sep :: "string list \<Rightarrow> string" where
  "join_sep [] = []"
| "join_sep [s] = s"
| "join_sep (s # t # ss) = s @ ''/'' @ join_sep (t # ss)"

text \<open>
  One step of \<^verbatim>\<open>normalizeString\<close>: the segments kept so far are a stack, last segment
  first. An empty segment and \<^verbatim>\<open>.\<close> are dropped; \<^verbatim>\<open>..\<close> removes the last kept segment,
  unless there is none or it is itself \<^verbatim>\<open>..\<close>, in which case \<^verbatim>\<open>..\<close> is kept only when
  \<open>allowAboveRoot\<close> holds.
\<close>

fun norm_step :: "bool \<Rightarrow> string list \<Rightarrow> string \<Rightarrow> string list" where
  "norm_step allowAboveRoot stack seg =
     (if seg = [] \<or> seg = ''.'' then stack
      else if seg = ''..'' then
        (case stack of
           [] \<Rightarrow> (if allowAboveRoot then [''..''] else [])
         | lastSeg # rest \<Rightarrow>
             (if lastSeg = ''..'' then (if allowAboveRoot then ''..'' # stack else stack)
              else rest))
      else seg # stack)"

definition normalizeString :: "string \<Rightarrow> bool \<Rightarrow> string" where
  "normalizeString path allowAboveRoot =
     join_sep (rev (foldl (norm_step allowAboveRoot) [] (split_sep path)))"

text \<open>
  The loop of \<^verbatim>\<open>path.resolve\<close>: the arguments are visited from the last to the first, then
  the working directory, until an absolute one is met; empty arguments are skipped. The
  list given here is already in visiting order.
\<close>

fun resolve_loop :: "string list \<Rightarrow> string \<Rightarrow> string \<times> bool" where
  "resolve_loop [] resolvedPath = (resolvedPath, False)"
| "resolve_loop (p # ps) resolvedPath =
     (if p = [] then resolve_loop ps resolvedPath
      else if hd p = CHR ''/'' then (p @ ''/'' @ resolvedPath, True)
      else resolve_loop ps (p @ ''/'' @ resolvedPath))"

definition path_resolve :: "env \<Rightarrow> string list \<Rightarrow> string" where
  "path_resolve e args =
     (case resolve_loop (rev args @ [process_cwd e]) [] of
        (resolvedPath, resolvedAbsolute) \<Rightarrow>
          (let n = normalizeString resolvedPath (\<not> resolvedAbsolute)
           in if resolvedAbsolute then ''/'' @ n
              else if n \<noteq> [] then n else ''.''))"

text \<open>
  \<^verbatim>\<open>path.resolve\<close> and \<^verbatim>\<open>path.extname\<close> first check that an argument is a string and throw
  a \<^verbatim>\<open>TypeError\<close> otherwise.
\<close>

fun validateString :: "jsval \<Rightarrow> exn + string" where
  "validateString (JStr s) = Inr s"
| "validateString v = Inl (JsTypeError ''ERR_INVALID_ARG_TYPE'')"

text \<open>
  \<^verbatim>\<open>path.extname\<close>: the extension of the last segment (trailing separators ignored), from
  its last dot on; empty when there is no dot, when the last dot is the segment's first
  character, and for the segment \<^verbatim>\<open>..\<close>.
\<close>

definition last_segment :: "string \<Rightarrow> string" where
  "last_segment path =
     rev (takeWhile (\<lambda>c. c \<noteq> CHR ''/'') (dropWhile (\<lambda>c. c = CHR ''/'') (rev path)))"

definition extname :: "string \<Rightarrow> string" where
  "extname path =
     (let base = last_segment path;
          afterDot = rev (takeWhile (\<lambda>c. c \<noteq> CHR ''.'') (rev base))
      in if CHR ''.'' \<notin> set base then []
         else if Suc (length afterDot) = length base then []
         else if base = ''..'' then []
         else CHR ''.'' # afterDot)"

text \<open>
  \<^verbatim>\<open>path.dirname\<close>: scanning from the end (the first character excluded), trailing
  separators are skipped, then the last segment; the result is what stands before the
  separator met next.
\<close>

definition dirname :: "string \<Rightarrow> string" where
  "dirname path =
     (if path = [] then ''.''
      else
        (let hasRoot = (hd path = CHR ''/'');
             r = dropWhile (\<lambda>c. c \<noteq> CHR ''/'')
                   (dropWhile (\<lambda>c. c = CHR ''/'') (rev (tl path)))
         in if r = [] then (if hasRoot then ''/'' else ''.'')
            else if hasRoot \<and> length r = 1 then ''//''
            else take (length r) path))"

text \<open>
  What \<^verbatim>\<open>String.prototype.toLowerCase\<close> does to a string of ASCII characters: the letters
  A to Z become a to z, every other character stays. A string is ASCII when the top bit
  of each of its bytes is clear.
\<close>

definition lower_char :: "char \<Rightarrow> char" where
  "lower_char c =
     (case map_of (zip ''ABCDEFGHIJKLMNOPQRSTUVWXYZ'' ''abcdefghijklmnopqrstuvwxyz'') c of
        None \<Rightarrow> c
      | Some l \<Rightarrow> l)"

definition ascii_toLowerCase :: "string \<Rightarrow> string" where
  "ascii_toLowerCase s = map lower_char s"

definition is_ascii :: "string \<Rightarrow> bool" where
  "is_ascii s = list_all (\<lambda>c. \<not> digit7 c) s"

text \<open>
  What the validator relies on when it lower-cases: on ASCII strings the runtime's
  function is \<open>ascii_toLowerCase\<close>, and only the empty string becomes empty.
\<close>

definition js_lowering :: "(string \<Rightarrow> string) \<Rightarrow> bool" where
  "js_lowering lower =
     ((\<forall>s. is_ascii s \<longrightarrow> lower s = ascii_toLowerCase s) \<and> (\<forall>s. (lower s = []) = (s = [])))"

section \<open>PathValidator\<close>

record PathValidator =
  allowedPaths :: "string list"
  blockedPaths :: "string list"
  allowedExtensions :: "string list"

text \<open>The constructor (lines 22-54).\<close>

definition new_PathValidator :: "env \<Rightarrow> PathValidator" where
  "new_PathValidator e =
     \<lparr> allowedPaths = [path_resolve e [os_homedir e, ''Documents/00_AI_Area'']],
       blockedPaths =
         [''/etc'', ''/bin'', ''/sbin'', ''/usr/bin'', ''/usr/sbin'', ''/System'', ''/Windows'',
          ''/Program Files'', ''/Program Files (x86)'',
          path_resolve e [os_homedir e, ''.ssh''],
          path_resolve e [os_homedir e, ''.aws''],
          path_resolve e [os_homedir e, ''.config'']],
       allowedExtensions =
         [''.txt'', ''.md'', ''.json'', ''.js'', ''.ts'', ''.html'', ''.css'',
          ''.py'', ''.java'', ''.cpp'', ''.c'', ''.h'', ''.xml'', ''.yaml'', ''.yml'',
          ''.log'', ''.csv'', ''.tsv'', ''.sql'', ''.sh'', ''.bat'', ''.ps1''] \<rparr>"

record validation =
  isValid :: bool
  normalizedPath :: jsval
  error :: "msg option"

text \<open>
  The loop over \<open>blockedPaths\<close> (lines 62-70): the first entry whose resolved form is a
  string prefix of the normalized path ends the validation.
\<close>

fun blocked_loop :: "env \<Rightarrow> string \<Rightarrow> string list \<Rightarrow> validation option" where
  "blocked_loop e normalized [] = None"
| "blocked_loop e normalized (blockedPath # rest) =
     (if startsWith normalized (path_resolve e [blockedPath])
      then Some \<lparr> isValid = False, normalizedPath = JStr normalized,
                  error = Some (Forbidden blockedPath) \<rparr>
      else blocked_loop e normalized rest)"

text \<open>\<^verbatim>\<open>validatePath\<close> (lines 56-93). The \<^verbatim>\<open>catch\<close> branch is the \<open>Inl\<close> case.\<close>

definition validatePath :: "PathValidator \<Rightarrow> env \<Rightarrow> jsval \<Rightarrow> validation" where
  "validatePath pv e inputPath =
     (case validateString inputPath of
        Inl err \<Rightarrow>
          \<lparr> isValid = False, normalizedPath = inputPath, error = Some (InvalidPath err) \<rparr>
      | Inr s \<Rightarrow>
          (let normalized = path_resolve e [s] in
           case blocked_loop e normalized (blockedPaths pv) of
             Some denied \<Rightarrow> denied
           | None \<Rightarrow>
               (let isAllowed =
                      list_ex (\<lambda>allowedPath. startsWith normalized allowedPath) (allowedPaths pv)
                in if \<not> isAllowed
                   then \<lparr> isValid = False, normalizedPath = JStr normalized,
                          error = Some (NotAllowed (allowedPaths pv)) \<rparr>
                   else \<lparr> isValid = True, normalizedPath = JStr normalized, error = None \<rparr>)))"

text \<open>
  Containment as the specification words it: the path is the root itself, or starts with
  the root followed by a separator.
\<close>

definition under_root :: "string \<Rightarrow> string \<Rightarrow> bool" where
  "under_root r p = (p = r \<or> startsWith p (r @ ''/''))"

text \<open>\<^verbatim>\<open>validateFileExtension\<close> (lines 95-106).\<close>

record ext_validation =
  ext_isValid :: bool
  ext_error :: "msg option"

definition validateFileExtension ::
  "PathValidator \<Rightarrow> env \<Rightarrow> string \<Rightarrow> ext_validation" where
  "validateFileExtension pv e filepath =
     (let ext = String_toLowerCase e (extname filepath) in
      if ext \<noteq> [] \<and> ext \<notin> set (allowedExtensions pv)
      then \<lparr> ext_isValid = False,
             ext_error = Some (BadExtension ext (allowedExtensions pv)) \<rparr>
      else \<lparr> ext_isValid = True, ext_error = None \<rparr>)"

text \<open>
  Two strings are equal up to the case of their letters; membership of a list up to case.
\<close>

definition equal_ignoring_case :: "env \<Rightarrow> string \<Rightarrow> string \<Rightarrow> bool" where
  "equal_ignoring_case e s t = (String_toLowerCase e s = String_toLowerCase e t)"

definition member_ignoring_case :: "env \<Rightarrow> string \<Rightarrow> string list \<Rightarrow> bool" where
  "member_ignoring_case e s ts = list_ex (equal_ignoring_case e s) ts"

text \<open>
  The extension as the specification words it: what follows the final dot of the final
  path segment, and the empty string when there is no dot. The allowed extensions are
  written with their dot, so the extension is looked up with a dot before it.
\<close>

definition spec_extension :: "string \<Rightarrow> string" where
  "spec_extension path =
     (let seg = last (split_sep path)
      in if CHR ''.'' \<in> set seg then rev (takeWhile (\<lambda>c. c \<noteq> CHR ''.'') (rev seg)) else [])"

definition spec_permits :: "PathValidator \<Rightarrow> env \<Rightarrow> string \<Rightarrow> bool" where
  "spec_permits pv e path =
     (spec_extension path = [] \<or>
      member_ignoring_case e (CHR ''.'' # spec_extension path) (allowedExtensions pv))"

section \<open>Tool results and the file system\<close>

text \<open>
  A result's text, again one constructor per template of the source:
  \<^item> \<open>NoArgumentsText\<close>: "Error: No arguments provided" (line 266);
  \<^item> \<open>ErrorText m\<close>: "Error: m" (line 305);
  \<^item> \<open>FileText path c\<close>: the path and the content read (line 332);
  \<^item> \<open>WrittenText path\<close> (line 364);
  \<^item> \<open>ListingText path lines\<close> (line 392), a line being an icon and a name (line 385);
  \<^item> \<open>SystemInfoText info\<close>: \<^verbatim>\<open>JSON.stringify(info, null, 2)\<close> under a heading (line 423);
  \<^item> \<open>SampleText path c\<close>: the path and the content written (line 472);
  \<^item> \<open>AllowedPathsText roots\<close> (line 488).
\<close>

datatype icon = FolderIcon | PageIcon

record system_info =
  platform :: string
  arch :: string
  release :: string
  hostname :: string
  uptime :: int
  memory_total :: int
  memory_free :: int
  cpus :: nat
  homeDir :: string
  tmpDir :: string

datatype text_item =
    NoArgumentsText
  | ErrorText msg
  | FileText string string
  | WrittenText string
  | ListingText string "(icon \<times> string) list"
  | SystemInfoText system_info
  | SampleText string string
  | AllowedPathsText "string list"

record CallToolResult =
  content :: "text_item list"
  isError :: bool

text \<open>
  The file system is a state of type \<open>'w\<close> with the four calls of \<^verbatim>\<open>fs/promises\<close> the
  server makes. A reading call leaves the state as it is; nothing else is assumed: a
  call may fail with any error, and a writing call returns the state it leaves behind
  also when it fails.
  \<open>fs_readdir\<close> yields the entries' names, each with \<^verbatim>\<open>isDirectory()\<close>.
\<close>

record 'w fs_calls =
  fs_readFile :: "'w \<Rightarrow> string \<Rightarrow> exn + string"
  fs_readdir :: "'w \<Rightarrow> string \<Rightarrow> exn + (string \<times> bool) list"
  fs_mkdir :: "'w \<Rightarrow> string \<Rightarrow> exn option \<times> 'w"
  fs_writeFile :: "'w \<Rightarrow> string \<Rightarrow> jsval \<Rightarrow> exn option \<times> 'w"

section \<open>The tools\<close>

text \<open>
  A tool returns its result or the error it throws, and the file system it leaves.
  \<^verbatim>\<open>new Error(x)\<close> for an absent \<open>x\<close> has an empty message. Where a tool hands
  \<open>normalizedPath\<close> to a library function, \<open>validateString\<close> is that function's check of
  its argument.
\<close>

fun error_message :: "msg option \<Rightarrow> msg" where
  "error_message None = NoMessage"
| "error_message (Some m) = m"

text \<open>\<^verbatim>\<open>readFile\<close> (lines 314-340).\<close>

definition readFile ::
  "'w fs_calls \<Rightarrow> PathValidator \<Rightarrow> env \<Rightarrow> 'w \<Rightarrow> jsval \<Rightarrow> (exn + CallToolResult) \<times> 'w" where
  "readFile fs pv e w filepath =
     (let attempt =
        (let pathValidation = validatePath pv e filepath in
         if \<not> isValid pathValidation
         then Inl (JsError (error_message (error pathValidation)))
         else
           (case validateString (normalizedPath pathValidation) of
              Inl err \<Rightarrow> Inl err
            | Inr n \<Rightarrow>
                (let extValidation = validateFileExtension pv e n in
                 if \<not> ext_isValid extValidation
                 then Inl (JsError (error_message (ext_error extValidation)))
                 else
                   (case fs_readFile fs w n of
                      Inl err \<Rightarrow> Inl err
                    | Inr c \<Rightarrow> Inr \<lparr> content = [FileText n c], isError = False \<rparr>))))
      in case attempt of
           Inl err \<Rightarrow> (Inl (JsError (ReadFailed err)), w)
         | Inr r \<Rightarrow> (Inr r, w))"

text \<open>\<^verbatim>\<open>writeFile\<close> (lines 342-372).\<close>

definition writeFile ::
  "'w fs_calls \<Rightarrow> PathValidator \<Rightarrow> env \<Rightarrow> 'w \<Rightarrow> jsval \<Rightarrow> jsval \<Rightarrow>
     (exn + CallToolResult) \<times> 'w" where
  "writeFile fs pv e w filepath data =
     (let attempt =
        (let pathValidation = validatePath pv e filepath in
         if \<not> isValid pathValidation
         then (Inl (JsError (error_message (error pathValidation))), w)
         else
           (case validateString (normalizedPath pathValidation) of
              Inl err \<Rightarrow> (Inl err, w)
            | Inr n \<Rightarrow>
                (let extValidation = validateFileExtension pv e n in
                 if \<not> ext_isValid extValidation
                 then (Inl (JsError (error_message (ext_error extValidation))), w)
                 else
                   (let dir = dirname n in
                    case fs_mkdir fs w dir of
                      (Some err, w1) \<Rightarrow> (Inl err, w1)
                    | (None, w1) \<Rightarrow>
                        (case fs_writeFile fs w1 n data of
                           (Some err, w2) \<Rightarrow> (Inl err, w2)
                         | (None, w2) \<Rightarrow>
                             (Inr \<lparr> content = [WrittenText n], isError = False \<rparr>, w2))))))
      in case attempt of
           (Inl err, w') \<Rightarrow> (Inl (JsError (WriteFailed err)), w')
         | (Inr r, w') \<Rightarrow> (Inr r, w'))"

text \<open>\<^verbatim>\<open>listDirectory\<close> (lines 374-400).\<close>

definition listDirectory ::
  "'w fs_calls \<Rightarrow> PathValidator \<Rightarrow> env \<Rightarrow> 'w \<Rightarrow> jsval \<Rightarrow> (exn + CallToolResult) \<times> 'w" where
  "listDirectory fs pv e w dirpath =
     (let attempt =
        (let pathValidation = validatePath pv e dirpath in
         if \<not> isValid pathValidation
         then Inl (JsError (error_message (error pathValidation)))
         else
           (case validateString (normalizedPath pathValidation) of
              Inl err \<Rightarrow> Inl err
            | Inr n \<Rightarrow>
                (case fs_readdir fs w n of
                   Inl err \<Rightarrow> Inl err
                 | Inr items \<Rightarrow>
                     (let fileList =
                            map (\<lambda>(itemName, isDir).
                                   (if isDir then FolderIcon else PageIcon, itemName)) items
                      in Inr \<lparr> content = [ListingText n fileList], isError = False \<rparr>))))
      in case attempt of
           Inl err \<Rightarrow> (Inl (JsError (ListFailed err)), w)
         | Inr r \<Rightarrow> (Inr r, w))"

text \<open>
  \<^verbatim>\<open>getSystemInfo\<close> (lines 402-428). \<^verbatim>\<open>Math.floor\<close> and \<^verbatim>\<open>Math.round\<close> are taken on exact
  quotients; \<^verbatim>\<open>Math.round\<close> rounds a half upwards.
\<close>

definition Math_floor :: "real \<Rightarrow> int" where
  "Math_floor x = \<lfloor>x\<rfloor>"

definition Math_round :: "real \<Rightarrow> int" where
  "Math_round x = \<lfloor>x + 1 / 2\<rfloor>"

definition getSystemInfo :: "env \<Rightarrow> 'w \<Rightarrow> (exn + CallToolResult) \<times> 'w" where
  "getSystemInfo e w =
     (let info =
        \<lparr> platform = os_platform e,
          arch = os_arch e,
          release = os_release e,
          hostname = os_hostname e,
          uptime = Math_floor (os_uptime e / 3600),
          memory_total = Math_round (real (os_totalmem e) / 1024 / 1024 / 1024),
          memory_free = Math_round (real (os_freemem e) / 1024 / 1024 / 1024),
          cpus = os_cpus e,
          homeDir = os_homedir e,
          tmpDir = os_tmpdir e \<rparr>
      in (Inr \<lparr> content = [SystemInfoText info], isError = False \<rparr>, w))"

text \<open>
  The template of the sample file (lines 443-465): five fixed pieces of text, given as
  their UTF-8 bytes, around the four interpolated values.
\<close>

definition utf8 :: "nat list \<Rightarrow> string" where
  "utf8 bytes = map char_of bytes"

definition sample_text_1 :: string where
  "sample_text_1 = utf8
     [35, 32, 227, 130, 181, 227, 131, 179, 227, 131, 151, 227, 131, 171, 227, 131, 149,
      227, 130, 161, 227, 130, 164, 227, 131, 171, 10, 10, 228, 189, 156, 230, 136, 144,
      230, 151, 165, 230, 153, 130, 58, 32]"

definition sample_text_2 :: string where
  "sample_text_2 = utf8
     [10, 10, 227, 129, 147, 227, 130, 140, 227, 129, 175, 32, 77, 67, 80, 32, 227, 130,
      181, 227, 131, 188, 227, 131, 144, 227, 129, 171, 227, 130, 136, 227, 129, 163,
      227, 129, 166, 228, 189, 156, 230, 136, 144, 227, 129, 149, 227, 130, 140, 227,
      129, 159, 227, 130, 181, 227, 131, 179, 227, 131, 151, 227, 131, 171, 227, 131,
      149, 227, 130, 161, 227, 130, 164, 227, 131, 171, 227, 129, 167, 227, 129, 153,
      227, 128, 130, 10, 10, 35, 35, 32, 229, 134, 133, 229, 174, 185, 10, 45, 32, 77,
      67, 80, 32, 40, 77, 111, 100, 101, 108, 32, 67, 111, 110, 116, 101, 120, 116, 32,
      80, 114, 111, 116, 111, 99, 111, 108, 41, 32, 227, 129, 174, 227, 131, 134, 227,
      130, 185, 227, 131, 136, 10, 45, 32, 67, 108, 97, 117, 100, 101, 68, 101, 115,
      107, 116, 111, 112, 32, 227, 129, 168, 227, 129, 174, 233, 128, 163, 230, 144,
      186, 231, 162, 186, 232, 170, 141, 10, 45, 32, 227, 131, 149, 227, 130, 161, 227,
      130, 164, 227, 131, 171, 230, 147, 141, 228, 189, 156, 227, 129, 174, 229, 139,
      149, 228, 189, 156, 231, 162, 186, 232, 170, 141, 10, 45, 32, 227, 130, 187, 227,
      130, 173, 227, 131, 165, 227, 131, 170, 227, 131, 134, 227, 130, 163, 229, 136,
      182, 233, 153, 144, 228, 187, 152, 227, 129, 141, 227, 131, 145, 227, 130, 185,
      227, 130, 162, 227, 130, 175, 227, 130, 187, 227, 130, 185, 10, 10, 35, 35, 32,
      227, 130, 183, 227, 130, 185, 227, 131, 134, 227, 131, 160, 230, 131, 133, 229,
      160, 177, 10, 45, 32, 78, 111, 100, 101, 46, 106, 115, 32, 227, 131, 144, 227,
      131, 188, 227, 130, 184, 227, 131, 167, 227, 131, 179, 58, 32]"

definition sample_text_3 :: string where
  "sample_text_3 = utf8
     [10, 45, 32, 227, 131, 151, 227, 131, 169, 227, 131, 131, 227, 131, 136, 227, 131,
      149, 227, 130, 169, 227, 131, 188, 227, 131, 160, 58, 32]"

definition sample_text_4 :: string where
  "sample_text_4 = utf8
     [10, 45, 32, 227, 130, 162, 227, 131, 188, 227, 130, 173, 227, 131, 134, 227, 130,
      175, 227, 131, 129, 227, 131, 163, 58, 32]"

definition sample_text_5 :: string where
  "sample_text_5 = utf8
     [10, 10, 35, 35, 32, 227, 130, 187, 227, 130, 173, 227, 131, 165, 227, 131, 170,
      227, 131, 134, 227, 130, 163, 232, 168, 173, 229, 174, 154, 10, 45, 32, 227, 131,
      145, 227, 130, 185, 227, 130, 162, 227, 130, 175, 227, 130, 187, 227, 130, 185,
      229, 136, 182, 233, 153, 144, 58, 32, 230, 156, 137, 229, 138, 185, 10, 45, 32,
      232, 168, 177, 229, 143, 175, 227, 129, 149, 227, 130, 140, 227, 129, 159, 227,
      131, 135, 227, 130, 163, 227, 131, 172, 227, 130, 175, 227, 131, 136, 227, 131,
      170, 227, 129, 174, 227, 129, 191, 227, 130, 162, 227, 130, 175, 227, 130, 187,
      227, 130, 185, 229, 143, 175, 232, 131, 189, 10, 10, 72, 97, 112, 112, 121, 32,
      99, 111, 100, 105, 110, 103, 33, 32, 240, 159, 154, 128, 10]"

definition sampleContent :: "env \<Rightarrow> string" where
  "sampleContent e =
     sample_text_1 @ date_now e @ sample_text_2 @ process_version e @ sample_text_3 @
     os_platform e @ sample_text_4 @ os_arch e @ sample_text_5"

text \<open>The operands of \<^verbatim>\<open>||\<close>: what JavaScript takes for true.\<close>

fun truthy :: "jsval \<Rightarrow> bool" where
  "truthy JUndefined = False"
| "truthy JNull = False"
| "truthy (JBool b) = b"
| "truthy (JNum n) = (n \<noteq> 0)"
| "truthy (JStr s) = (s \<noteq> [])"
| "truthy JObj = True"

text \<open>\<^verbatim>\<open>createSampleFile\<close> (lines 430-480).\<close>

definition createSampleFile ::
  "'w fs_calls \<Rightarrow> PathValidator \<Rightarrow> env \<Rightarrow> 'w \<Rightarrow> jsval \<Rightarrow> (exn + CallToolResult) \<times> 'w" where
  "createSampleFile fs pv e w filename =
     (let sampleFilename = (if truthy filename then filename else JStr ''sample.txt'');
          attempt =
            (case validateString sampleFilename of
               Inl err \<Rightarrow> (Inl err, w)
             | Inr s \<Rightarrow>
                 (let fullPath = path_resolve e [process_cwd e, s];
                      pathValidation = validatePath pv e (JStr fullPath)
                  in if \<not> isValid pathValidation
                     then (Inl (JsError (error_message (error pathValidation))), w)
                     else
                       (case validateString (normalizedPath pathValidation) of
                          Inl err \<Rightarrow> (Inl err, w)
                        | Inr n \<Rightarrow>
                            (case fs_writeFile fs w n (JStr (sampleContent e)) of
                               (Some err, w1) \<Rightarrow> (Inl err, w1)
                             | (None, w1) \<Rightarrow>
                                 (Inr \<lparr> content = [SampleText n (sampleContent e)],
                                        isError = False \<rparr>, w1)))))
      in case attempt of
           (Inl err, w') \<Rightarrow> (Inl (JsError (SampleFailed err)), w')
         | (Inr r, w') \<Rightarrow> (Inr r, w'))"

text \<open>\<^verbatim>\<open>getAllowedPaths\<close> (lines 108-110 and 482-493).\<close>

definition getAllowedPaths :: "PathValidator \<Rightarrow> 'w \<Rightarrow> (exn + CallToolResult) \<times> 'w" where
  "getAllowedPaths pv w =
     (Inr \<lparr> content = [AllowedPathsText (allowedPaths pv)], isError = False \<rparr>, w)"

section \<open>The handler of tool calls\<close>

text \<open>
  A request names a tool and may carry an object of arguments; \<open>arg a k\<close> is
  \<^verbatim>\<open>a.k\<close>, which is \<^verbatim>\<open>undefined\<close> for a missing key.
\<close>

record request =
  tool :: string
  arguments :: "(string \<rightharpoonup> jsval) option"

definition arg :: "(string \<rightharpoonup> jsval) \<Rightarrow> string \<Rightarrow> jsval" where
  "arg a k = (case a k of None \<Rightarrow> JUndefined | Some v \<Rightarrow> v)"

text \<open>The \<^verbatim>\<open>switch\<close> of lines 274-298.\<close>

definition dispatch ::
  "'w fs_calls \<Rightarrow> PathValidator \<Rightarrow> env \<Rightarrow> 'w \<Rightarrow> string \<Rightarrow> (string \<rightharpoonup> jsval) \<Rightarrow>
     (exn + CallToolResult) \<times> 'w" where
  "dispatch fs pv e w toolName a =
     (if toolName = ''read_file'' then readFile fs pv e w (arg a ''filepath'')
      else if toolName = ''write_file''
        then writeFile fs pv e w (arg a ''filepath'') (arg a ''content'')
      else if toolName = ''list_directory'' then listDirectory fs pv e w (arg a ''dirpath'')
      else if toolName = ''get_system_info'' then getSystemInfo e w
      else if toolName = ''create_sample_file''
        then createSampleFile fs pv e w (arg a ''filename'')
      else if toolName = ''get_allowed_paths'' then getAllowedPaths pv w
      else (Inl (JsError (UnknownTool toolName)), w))"

text \<open>The handler registered for \<^verbatim>\<open>CallToolRequestSchema\<close> (lines 257-311).\<close>

definition handleCallTool ::
  "'w fs_calls \<Rightarrow> PathValidator \<Rightarrow> env \<Rightarrow> 'w \<Rightarrow> request \<Rightarrow> CallToolResult \<times> 'w" where
  "handleCallTool fs pv e w req =
     (case arguments req of
        None \<Rightarrow> (\<lparr> content = [NoArgumentsText], isError = True \<rparr>, w)
      | Some a \<Rightarrow>
          (case dispatch fs pv e w (tool req) a of
             (Inl err, w') \<Rightarrow>
               (\<lparr> content = [ErrorText (exn_message err)], isError = True \<rparr>, w')
           | (Inr r, w') \<Rightarrow> (r, w')))"

text \<open>
  The names of the catalogue \<^verbatim>\<open>TOOLS\<close> (lines 114-190).
\<close>

definition TOOLS :: "string list" where
  "TOOLS = [''read_file'', ''write_file'', ''list_directory'', ''get_system_info'',
            ''create_sample_file'', ''get_allowed_paths'']"

text \<open>
  The server answers requests one after the other: the SDK calls the handler for each
  request it receives and sends back what the handler returns.
\<close>

fun serve ::
  "'w fs_calls \<Rightarrow> PathValidator \<Rightarrow> env \<Rightarrow> 'w \<Rightarrow> request list \<Rightarrow> CallToolResult list" where
  "serve fs pv e w [] = []"
| "serve fs pv e w (req # reqs) =
     (case handleCallTool fs pv e w req of (r, w') \<Rightarrow> r # serve fs pv e w' reqs)"

section \<open>Auxiliary notions\<close>

text \<open>\<^verbatim>\<open>path.isAbsolute\<close>; Node's \<^verbatim>\<open>process.cwd()\<close> returns an absolute path.\<close>

definition isAbsolute :: "string \<Rightarrow> bool" where
  "isAbsolute p = (p \<noteq> [] \<and> hd p = CHR ''/'')"

text \<open>A segment that \<open>norm_step\<close> keeps as it is.\<close>

definition clean_seg :: "string \<Rightarrow> bool" where
  "clean_seg s = (s \<noteq> [] \<and> s \<noteq> ''.'' \<and> s \<noteq> ''..'' \<and> CHR ''/'' \<notin> set s)"

section \<open>A host and an in-memory file system to run the tools on\<close>

text \<open>
  The example host lower-cases by \<open>ascii_toLowerCase\<close>; the strings it is run on are
  ASCII.
\<close>

definition example_env :: env where
  "example_env =
     \<lparr> process_cwd = ''/home/u/Documents/00_AI_Area'', process_version = ''v20.11.0'',
       os_homedir = ''/home/u'', os_tmpdir = ''/tmp'', os_platform = ''linux'',
       os_arch = ''x64'', os_release = ''6.1.0'', os_hostname = ''box'',
       os_uptime = 7250, os_totalmem = 16500000000, os_freemem = 500000000,
       os_cpus = 8, date_now = ''2024/1/1 9:00:00'',
       String_toLowerCase = ascii_toLowerCase \<rparr>"

text \<open>The policy of the specification's scenario.\<close>

definition sandbox_validator :: PathValidator where
  "sandbox_validator =
     \<lparr> allowedPaths = [''/sandbox''], blockedPaths = [''/sandbox/.secret''],
       allowedExtensions = [''.txt''] \<rparr>"

record memfs =
  mem_files :: "(string \<times> string) list"
  mem_dirs :: "string list"

definition dir_chain :: "string \<Rightarrow> string list" where
  "dir_chain d =
     (let segs = filter (\<lambda>s. s \<noteq> []) (split_sep d)
      in map (\<lambda>k. ''/'' @ join_sep (take k segs)) [0..<Suc (length segs)])"

definition mem_readFile :: "memfs \<Rightarrow> string \<Rightarrow> exn + string" where
  "mem_readFile w p =
     (if p \<in> set (mem_dirs w) then Inl (JsSystemError ''EISDIR'')
      else (case map_of (mem_files w) p of
              None \<Rightarrow> Inl (JsSystemError ''ENOENT'')
            | Some c \<Rightarrow> Inr c))"

definition mem_readdir :: "memfs \<Rightarrow> string \<Rightarrow> exn + (string \<times> bool) list" where
  "mem_readdir w d =
     (if d \<notin> set (mem_dirs w) then Inl (JsSystemError ''ENOENT'')
      else Inr (map (\<lambda>(p, c). (last_segment p, False))
                  (filter (\<lambda>(p, c). dirname p = d) (mem_files w)) @
                map (\<lambda>p. (last_segment p, True))
                  (filter (\<lambda>p. dirname p = d \<and> p \<noteq> d) (remdups (mem_dirs w)))))"

definition mem_mkdir :: "memfs \<Rightarrow> string \<Rightarrow> exn option \<times> memfs" where
  "mem_mkdir w d =
     (if d \<in> set (map fst (mem_files w)) then (Some (JsSystemError ''EEXIST''), w)
      else (None, w\<lparr> mem_dirs := dir_chain d @ mem_dirs w \<rparr>))"

fun mem_writeFile :: "memfs \<Rightarrow> string \<Rightarrow> jsval \<Rightarrow> exn option \<times> memfs" where
  "mem_writeFile w p (JStr s) =
     (if p \<in> set (mem_dirs w) then (Some (JsSystemError ''EISDIR''), w)
      else if dirname p \<notin> set (mem_dirs w) then (Some (JsSystemError ''ENOENT''), w)
      else (None, w\<lparr> mem_files := (p, s) # filter (\<lambda>(q, c). q \<noteq> p) (mem_files w) \<rparr>))"
| "mem_writeFile w p v = (Some (JsTypeError ''ERR_INVALID_ARG_TYPE''), w)"

definition mem_fs :: "memfs fs_calls" where
  "mem_fs =
     \<lparr> fs_readFile = mem_readFile, fs_readdir = mem_readdir,
       fs_mkdir = mem_mkdir, fs_writeFile = mem_writeFile \<rparr>"

definition example_world :: memfs where
  "example_world =
     \<lparr> mem_files = [(''/home/u/Documents/00_AI_Area/notes.txt'', ''hello'')],
       mem_dirs = [''/'', ''/home'', ''/home/u'', ''/home/u/Documents'',
                   ''/home/u/Documents/00_AI_Area''] \<rparr>"

section \<open>Facts about resolved paths\<close>

lemma under_root_startsWith: "under_root r p \<Longrightarrow> startsWith p r"
proof -
  assume "under_root r p"
  then consider "p = r" | "take (Suc (length r)) p = r @ ''/''"
    by (auto simp: under_root_def startsWith_def)
  then show ?thesis
  proof cases
    case 1
    then show ?thesis by (simp add: startsWith_def)
  next
    case 2
    then have "take (length r) (take (Suc (length r)) p) = take (length r) (r @ ''/'')"
      by simp
    then show ?thesis by (simp add: startsWith_def min_def)
  qed
qed

lemma blocked_loop_find:
  "blocked_loop e n bs =
     map_option
       (\<lambda>b. \<lparr> isValid = False, normalizedPath = JStr n, error = Some (Forbidden b) \<rparr>)
       (List.find (\<lambda>b. startsWith n (path_resolve e [b])) bs)"
  by (induction bs) simp_all

lemma split_sep_no_slash: "s \<in> set (split_sep p) \<Longrightarrow> CHR ''/'' \<notin> set s"
proof (induction p arbitrary: s)
  case Nil
  then show ?case by simp
next
  case (Cons c cs)
  then show ?case
    by (cases "split_sep cs") (auto split: if_splits)
qed

lemma split_sep_append:
  "CHR ''/'' \<notin> set s \<Longrightarrow> split_sep (s @ CHR ''/'' # rest) = s # split_sep rest"
  by (induction s) auto

lemma norm_step_clean:
  "list_all clean_seg stack \<Longrightarrow> CHR ''/'' \<notin> set seg \<Longrightarrow>
   list_all clean_seg (norm_step False stack seg)"
  by (cases stack) (auto simp: clean_seg_def)

lemma foldl_norm_step_clean:
  "list_all clean_seg stack \<Longrightarrow> \<forall>s \<in> set segs. CHR ''/'' \<notin> set s \<Longrightarrow>
   list_all clean_seg (foldl (norm_step False) stack segs)"
proof (induction segs arbitrary: stack)
  case Nil
  then show ?case by simp
next
  case (Cons a segs)
  have "list_all clean_seg (norm_step False stack a)"
    using Cons.prems by (intro norm_step_clean) auto
  then show ?case using Cons by simp
qed

text \<open>Normalizing a path that is already a sequence of kept segments gives it back.\<close>

lemma foldl_norm_step_join:
  "list_all clean_seg segs \<Longrightarrow>
   foldl (norm_step False) stack (split_sep (join_sep segs @ ''/'')) = rev segs @ stack"
proof (induction segs arbitrary: stack rule: join_sep.induct)
  case 1
  then show ?case by simp
next
  case (2 s)
  then have "CHR ''/'' \<notin> set s" "s \<noteq> []" "s \<noteq> ''.''" "s \<noteq> ''..''"
    by (auto simp: clean_seg_def)
  then show ?case using split_sep_append[of s "[]"] by simp
next
  case (3 s t ss)
  then have c: "CHR ''/'' \<notin> set s" "s \<noteq> []" "s \<noteq> ''.''" "s \<noteq> ''..''"
    by (auto simp: clean_seg_def)
  have "split_sep (join_sep (s # t # ss) @ ''/'') = s # split_sep (join_sep (t # ss) @ ''/'')"
    using split_sep_append[OF c(1), of "join_sep (t # ss) @ ''/''"] by simp
  then show ?case using 3 c by simp
qed

lemma path_resolve_clean_fixed:
  assumes "list_all clean_seg segs"
  shows "path_resolve e [''/'' @ join_sep segs] = ''/'' @ join_sep segs"
proof -
  have "foldl (norm_step False) [] (split_sep (''/'' @ join_sep segs @ ''/'')) = rev segs"
    using foldl_norm_step_join[OF assms, of "[]"] by simp
  then show ?thesis
    by (simp add: path_resolve_def normalizeString_def)
qed

lemma resolve_loop_absolute:
  "isAbsolute c \<Longrightarrow> snd (resolve_loop (ps @ [c]) acc)"
  by (induction ps arbitrary: acc) (auto simp: isAbsolute_def)

text \<open>With an absolute working directory every resolved path is \<open>/\<close> and kept segments.\<close>

lemma path_resolve_absolute_shape:
  assumes "isAbsolute (process_cwd e)"
  shows "\<exists>segs. list_all clean_seg segs \<and> path_resolve e args = ''/'' @ join_sep segs"
proof -
  have "snd (resolve_loop (rev args @ [process_cwd e]) [])"
    using assms by (rule resolve_loop_absolute)
  then obtain acc where acc: "resolve_loop (rev args @ [process_cwd e]) [] = (acc, True)"
    by (cases "resolve_loop (rev args @ [process_cwd e]) []") auto
  let ?st = "foldl (norm_step False) [] (split_sep acc)"
  have "list_all clean_seg ?st"
    by (rule foldl_norm_step_clean) (auto dest: split_sep_no_slash)
  then have "list_all clean_seg (rev ?st)" by simp
  moreover have "path_resolve e args = ''/'' @ join_sep (rev ?st)"
    using acc by (simp add: path_resolve_def normalizeString_def)
  ultimately show ?thesis by blast
qed

lemma path_resolve_idem:
  "isAbsolute (process_cwd e) \<Longrightarrow> path_resolve e [path_resolve e args] = path_resolve e args"
  using path_resolve_absolute_shape[of e args] path_resolve_clean_fixed by auto

section \<open>Path validation\<close>

text \<open>
  What \<open>validatePath\<close> accepts: the resolved path has no blocked entry (resolved) as a
  string prefix, and has an allowed entry as a string prefix.
\<close>

lemma validatePath_accepts_iff:
  "isValid (validatePath pv e (JStr p)) \<longleftrightarrow>
     \<not> list_ex (\<lambda>b. startsWith (path_resolve e [p]) (path_resolve e [b])) (blockedPaths pv) \<and>
     list_ex (\<lambda>a. startsWith (path_resolve e [p]) a) (allowedPaths pv)"
proof (cases "List.find (\<lambda>b. startsWith (path_resolve e [p]) (path_resolve e [b]))
                (blockedPaths pv)")
  case None
  then have "\<not> list_ex (\<lambda>b. startsWith (path_resolve e [p]) (path_resolve e [b]))
               (blockedPaths pv)"
    by (simp add: find_None_iff list_ex_iff)
  then show ?thesis
    by (simp add: validatePath_def blocked_loop_find None Let_def)
next
  case (Some b)
  then have "list_ex (\<lambda>b. startsWith (path_resolve e [p]) (path_resolve e [b])) (blockedPaths pv)"
    by (auto simp: find_Some_iff list_ex_iff)
  with Some show ?thesis
    by (simp add: validatePath_def blocked_loop_find)
qed

text \<open>
  C1: a path whose resolved form neither equals an allowed root nor starts with one
  followed by a separator is to be denied. The validator compares by
  \<^verbatim>\<open>startsWith\<close> alone: with the home directory \<^verbatim>\<open>/home/u\<close> the only allowed root is
  \<^verbatim>\<open>/home/u/Documents/00_AI_Area\<close>, and a file of the sibling directory
  \<^verbatim>\<open>/home/u/Documents/00_AI_Area_backup\<close> is accepted; so is \<^verbatim>\<open>/sandboxed\<close> under the
  allowed root \<^verbatim>\<open>/sandbox\<close>.
\<close>

theorem allow_list_accepts_sibling_directory:
  "allowedPaths (new_PathValidator example_env) = [''/home/u/Documents/00_AI_Area''] \<and>
   path_resolve example_env [''/home/u/Documents/00_AI_Area_backup/secret.txt'']
     = ''/home/u/Documents/00_AI_Area_backup/secret.txt'' \<and>
   \<not> under_root ''/home/u/Documents/00_AI_Area''
       ''/home/u/Documents/00_AI_Area_backup/secret.txt'' \<and>
   validatePath (new_PathValidator example_env) example_env
       (JStr ''/home/u/Documents/00_AI_Area_backup/secret.txt'')
     = \<lparr> isValid = True,
         normalizedPath = JStr ''/home/u/Documents/00_AI_Area_backup/secret.txt'',
         error = None \<rparr> \<and>
   \<not> under_root ''/sandbox'' ''/sandboxed'' \<and>
   validatePath sandbox_validator example_env (JStr ''/sandboxed'')
     = \<lparr> isValid = True, normalizedPath = JStr ''/sandboxed'', error = None \<rparr>"
  by (simp add: validatePath_def new_PathValidator_def sandbox_validator_def example_env_def
      path_resolve_def normalizeString_def startsWith_def under_root_def)

text \<open>
  C2: the deny-list is to deny exactly the paths that equal a blocked root or start with
  one followed by a separator. The validator compares by \<^verbatim>\<open>startsWith\<close> alone:
  \<^verbatim>\<open>/etcetera\<close> lies under no blocked root and is denied as being in the forbidden
  directory \<^verbatim>\<open>/etc\<close>.
\<close>

theorem deny_list_rejects_sibling_directory:
  "path_resolve example_env [''/etcetera''] = ''/etcetera'' \<and>
   \<not> list_ex (\<lambda>b. under_root (path_resolve example_env [b]) ''/etcetera'')
       (blockedPaths (new_PathValidator example_env)) \<and>
   validatePath (new_PathValidator example_env) example_env (JStr ''/etcetera'')
     = \<lparr> isValid = False, normalizedPath = JStr ''/etcetera'',
         error = Some (Forbidden ''/etc'') \<rparr>"
  by (simp add: validatePath_def new_PathValidator_def example_env_def
      path_resolve_def normalizeString_def startsWith_def under_root_def)

text \<open>
  C3: a path that resolves under a blocked root is denied, whatever the allowed roots
  are: the loop over the blocked roots runs first and returns at the first entry that
  matches, naming it.
\<close>

theorem deny_precedence:
  assumes "b \<in> set (blockedPaths pv)"
    and "under_root (path_resolve e [b]) (path_resolve e [p])"
  shows "\<exists>b'. List.find (\<lambda>b. startsWith (path_resolve e [p]) (path_resolve e [b]))
                 (blockedPaths pv) = Some b' \<and>
          validatePath pv e (JStr p) =
            \<lparr> isValid = False, normalizedPath = JStr (path_resolve e [p]),
              error = Some (Forbidden b') \<rparr>"
proof -
  let ?P = "\<lambda>b. startsWith (path_resolve e [p]) (path_resolve e [b])"
  have "?P b" using assms(2) by (rule under_root_startsWith)
  with assms(1) obtain b' where "List.find ?P (blockedPaths pv) = Some b'"
    by (cases "List.find ?P (blockedPaths pv)") (auto simp: find_None_iff)
  then show ?thesis
    by (simp add: validatePath_def blocked_loop_find)
qed

theorem deny_precedence_witness:
  "''/sandbox/.secret'' \<in> set (blockedPaths sandbox_validator) \<and>
   under_root (path_resolve example_env [''/sandbox/.secret''])
     (path_resolve example_env [''/sandbox/.secret/x.txt'']) \<and>
   ''/sandbox'' \<in> set (allowedPaths sandbox_validator) \<and>
   under_root ''/sandbox'' (path_resolve example_env [''/sandbox/.secret/x.txt'']) \<and>
   validatePath sandbox_validator example_env (JStr ''/sandbox/.secret/x.txt'') =
     \<lparr> isValid = False, normalizedPath = JStr ''/sandbox/.secret/x.txt'',
       error = Some (Forbidden ''/sandbox/.secret'') \<rparr>"
  using deny_precedence
    [of "''/sandbox/.secret''" sandbox_validator example_env "''/sandbox/.secret/x.txt''"]
  by (simp add: sandbox_validator_def example_env_def path_resolve_def normalizeString_def
      under_root_def startsWith_def)

text \<open>
  C4: validation is idempotent. When \<open>validatePath\<close> accepts an input with the
  normalized path \<open>n\<close>, it accepts \<open>n\<close> with the same normalized path. The working
  directory is absolute, as \<^verbatim>\<open>process.cwd()\<close> always is.
\<close>

theorem validatePath_idempotent:
  assumes "isAbsolute (process_cwd e)"
    and "validatePath pv e v = \<lparr> isValid = True, normalizedPath = JStr n, error = None \<rparr>"
  shows "validatePath pv e (JStr n) =
           \<lparr> isValid = True, normalizedPath = JStr n, error = None \<rparr>"
proof -
  obtain p where v: "v = JStr p"
    using assms(2) by (cases v) (simp_all add: validatePath_def)
  have n: "n = path_resolve e [p]"
    using assms(2) unfolding v
    by (auto simp: validatePath_def blocked_loop_find Let_def split: option.splits if_splits)
  have "path_resolve e [n] = n"
    unfolding n using assms(1) by (rule path_resolve_idem)
  then have "validatePath pv e (JStr n) = validatePath pv e (JStr p)"
    by (simp add: validatePath_def n)
  then show ?thesis using assms(2) v by simp
qed

theorem validatePath_idempotent_witness:
  "isAbsolute (process_cwd example_env) \<and>
   validatePath (new_PathValidator example_env) example_env (JStr ''drafts/../sub/./a.txt'') =
     \<lparr> isValid = True, normalizedPath = JStr ''/home/u/Documents/00_AI_Area/sub/a.txt'',
       error = None \<rparr> \<and>
   validatePath (new_PathValidator example_env) example_env
       (JStr ''/home/u/Documents/00_AI_Area/sub/a.txt'') =
     \<lparr> isValid = True, normalizedPath = JStr ''/home/u/Documents/00_AI_Area/sub/a.txt'',
       error = None \<rparr>"
proof -
  have a: "isAbsolute (process_cwd example_env)"
    by (simp add: isAbsolute_def example_env_def)
  have b: "validatePath (new_PathValidator example_env) example_env
             (JStr ''drafts/../sub/./a.txt'') =
           \<lparr> isValid = True, normalizedPath = JStr ''/home/u/Documents/00_AI_Area/sub/a.txt'',
             error = None \<rparr>"
    by (simp add: validatePath_def new_PathValidator_def example_env_def path_resolve_def
        normalizeString_def startsWith_def)
  from validatePath_idempotent [OF a b] a b show ?thesis by simp
qed

section \<open>Extension validation\<close>

lemma allowedExtensions_new:
  "allowedExtensions (new_PathValidator e) =
     [''.txt'', ''.md'', ''.json'', ''.js'', ''.ts'', ''.html'', ''.css'',
      ''.py'', ''.java'', ''.cpp'', ''.c'', ''.h'', ''.xml'', ''.yaml'', ''.yml'',
      ''.log'', ''.csv'', ''.tsv'', ''.sql'', ''.sh'', ''.bat'', ''.ps1'']"
  by (simp add: new_PathValidator_def)

lemma example_lower: "String_toLowerCase example_env = ascii_toLowerCase"
  by (simp add: example_env_def)

lemma takeWhile_neq_append:
  "c \<notin> set xs \<Longrightarrow> takeWhile (\<lambda>d. d \<noteq> c) (xs @ ys) = xs @ takeWhile (\<lambda>d. d \<noteq> c) ys"
  by (induction xs) auto

lemma last_segment_decompose:
  assumes "base \<noteq> []" and "CHR ''/'' \<notin> set base" and "pre = [] \<or> last pre = CHR ''/''"
  shows "last_segment (pre @ base @ replicate k CHR ''/'') = base"
proof -
  have r: "rev (pre @ base @ replicate k CHR ''/'') = replicate k CHR ''/'' @ rev base @ rev pre"
    by simp
  have d1: "dropWhile (\<lambda>c. c = CHR ''/'') (replicate k CHR ''/'' @ rev base @ rev pre)
      = dropWhile (\<lambda>c. c = CHR ''/'') (rev base @ rev pre)"
    by (rule dropWhile_append2) simp
  have "hd (rev base @ rev pre) \<noteq> CHR ''/''"
    using assms(1,2) by (simp add: hd_rev) (metis last_in_set)
  then have d2: "dropWhile (\<lambda>c. c = CHR ''/'') (rev base @ rev pre) = rev base @ rev pre"
    using assms(1) by (simp add: dropWhile_eq_self_iff)
  have t0: "takeWhile (\<lambda>c. c \<noteq> CHR ''/'') (rev pre) = []"
    using assms(3) by (cases "rev pre") (auto simp: last_rev[symmetric] simp del: last_rev)
  have "takeWhile (\<lambda>c. c \<noteq> CHR ''/'') (rev base @ rev pre) = rev base"
    using assms(2) t0 by (simp add: takeWhile_neq_append)
  then show ?thesis
    unfolding last_segment_def r d1 d2 by simp
qed

lemma last_segment_slashes: "last_segment (replicate k CHR ''/'') = []"
  by (simp add: last_segment_def)

lemma extname_no_dot: "CHR ''.'' \<notin> set (last_segment p) \<Longrightarrow> extname p = []"
  by (simp add: extname_def)

lemma extname_dotfile:
  "last_segment p = CHR ''.'' # rest \<Longrightarrow> CHR ''.'' \<notin> set rest \<Longrightarrow> extname p = []"
  by (simp add: extname_def Let_def takeWhile_neq_append)

lemma extname_dotdot: "last_segment p = ''..'' \<Longrightarrow> extname p = []"
  by (simp add: extname_def)

lemma extname_last_dot:
  assumes "last_segment p = stem @ CHR ''.'' # x" and "stem \<noteq> []" and "CHR ''.'' \<notin> set x"
    and "last_segment p \<noteq> ''..''"
  shows "extname p = CHR ''.'' # x"
proof -
  have "takeWhile (\<lambda>c. c \<noteq> CHR ''.'') (rev (stem @ CHR ''.'' # x)) = rev x"
    using assms(3) by (simp add: takeWhile_neq_append)
  then show ?thesis
    using assms by (simp add: extname_def Let_def)
qed

lemma allowedExtensions_ascii_lower:
  "\<forall>a \<in> set (allowedExtensions (new_PathValidator e)). is_ascii a \<and> ascii_toLowerCase a = a"
  unfolding allowedExtensions_new by code_simp

lemma member_ignoring_case_lower:
  assumes "js_lowering (String_toLowerCase e)"
  shows "member_ignoring_case e s (allowedExtensions (new_PathValidator e')) \<longleftrightarrow>
         String_toLowerCase e s \<in> set (allowedExtensions (new_PathValidator e'))"
proof -
  have "String_toLowerCase e a = a" if "a \<in> set (allowedExtensions (new_PathValidator e'))" for a
    using that assms allowedExtensions_ascii_lower[of e'] by (auto simp: js_lowering_def)
  then show ?thesis
    by (auto simp: member_ignoring_case_def equal_ignoring_case_def list_ex_iff)
qed

lemma takeWhile_eq_replicate:
  "takeWhile (\<lambda>d. d = c) xs = replicate (length (takeWhile (\<lambda>d. d = c) xs)) c"
  by (induction xs) auto

lemma takeWhile_neq_notin: "c \<notin> set (takeWhile (\<lambda>d. d \<noteq> c) xs)"
  by (induction xs) auto

lemma takeWhile_after_dropWhile:
  "dropWhile (\<lambda>d. d = c) xs \<noteq> [] \<Longrightarrow>
   takeWhile (\<lambda>d. d \<noteq> c) (dropWhile (\<lambda>d. d = c) xs) \<noteq> []"
  by (induction xs) auto

lemma hd_dropWhile_neq:
  "dropWhile (\<lambda>d. d \<noteq> c) ys \<noteq> [] \<Longrightarrow> hd (dropWhile (\<lambda>d. d \<noteq> c) ys) = c"
  by (induction ys) auto

text \<open>Every path is a run of separators, or a last segment between what precedes it
  and the separators that follow it.\<close>

lemma path_decompose:
  "(\<exists>k. path = replicate k CHR ''/'') \<or>
   (\<exists>pre base k. base \<noteq> [] \<and> CHR ''/'' \<notin> set base \<and> (pre = [] \<or> last pre = CHR ''/'') \<and>
      path = pre @ base @ replicate k CHR ''/'')"
proof -
  define sl where "sl = takeWhile (\<lambda>c. c = CHR ''/'') (rev path)"
  define rest where "rest = dropWhile (\<lambda>c. c = CHR ''/'') (rev path)"
  define b where "b = takeWhile (\<lambda>c. c \<noteq> CHR ''/'') rest"
  define p where "p = dropWhile (\<lambda>c. c \<noteq> CHR ''/'') rest"
  have r: "rev path = sl @ b @ p"
    by (simp add: sl_def rest_def b_def p_def)
  have "rev (rev path) = rev (sl @ b @ p)"
    by (simp only: r)
  then have split: "path = rev p @ rev b @ rev sl"
    by (simp only: rev_rev_ident rev_append append_assoc)
  have "sl = replicate (length sl) CHR ''/''"
    unfolding sl_def by (rule takeWhile_eq_replicate)
  then have "rev sl = rev (replicate (length sl) CHR ''/'')"
    by (rule arg_cong)
  then have sl: "rev sl = replicate (length sl) CHR ''/''"
    by (simp only: rev_replicate)
  show ?thesis
  proof (cases "rest = []")
    case True
    then have "b = []" "p = []" by (simp_all add: b_def p_def)
    with split sl have "path = replicate (length sl) CHR ''/''" by simp
    then show ?thesis by blast
  next
    case False
    then have b: "rev b \<noteq> []"
      unfolding b_def rest_def using takeWhile_after_dropWhile[of "CHR ''/''" "rev path"]
      by simp
    have nb: "CHR ''/'' \<notin> set (rev b)"
      unfolding b_def using takeWhile_neq_notin[of "CHR ''/''" rest] by simp
    have p: "rev p = [] \<or> last (rev p) = CHR ''/''"
      unfolding p_def using hd_dropWhile_neq[of "CHR ''/''" rest]
      by (cases "dropWhile (\<lambda>c. c \<noteq> CHR ''/'') rest = []") (simp_all add: last_rev)
    from split sl have "path = rev p @ rev b @ replicate (length sl) CHR ''/''"
      by simp
    with b nb p show ?thesis by blast
  qed
qed

lemma example_js_lowering: "js_lowering (String_toLowerCase example_env)"
  unfolding example_lower by (simp add: js_lowering_def ascii_toLowerCase_def)

text \<open>
  C5, as stated with the specification's extension (what follows the final dot of the final
  path segment): a segment without extension is valid, an extension outside the list is
  invalid. The validator takes the extension from \<^verbatim>\<open>path.extname\<close>: for \<^verbatim>\<open>file.\<close> the
  specification's extension is empty and the path is refused (naming the extension
  \<^verbatim>\<open>.\<close>); for \<^verbatim>\<open>.env\<close> the specification's extension is \<^verbatim>\<open>env\<close>, which is not allowed,
  and the path is accepted.
\<close>

theorem extension_as_specified_counterexample:
  "spec_extension ''/sandbox/file.'' = [] \<and>
   spec_permits (new_PathValidator example_env) example_env ''/sandbox/file.'' \<and>
   validateFileExtension (new_PathValidator example_env) example_env ''/sandbox/file.'' =
     \<lparr> ext_isValid = False,
       ext_error = Some (BadExtension ''.''
                          (allowedExtensions (new_PathValidator example_env))) \<rparr> \<and>
   spec_extension ''/sandbox/.env'' = ''env'' \<and>
   \<not> spec_permits (new_PathValidator example_env) example_env ''/sandbox/.env'' \<and>
   validateFileExtension (new_PathValidator example_env) example_env ''/sandbox/.env'' =
     \<lparr> ext_isValid = True, ext_error = None \<rparr>"
proof -
  have s1: "spec_extension ''/sandbox/file.'' = []"
    by (simp add: spec_extension_def)
  have s2: "spec_extension ''/sandbox/.env'' = ''env''"
    by (simp add: spec_extension_def)
  have x1: "extname ''/sandbox/file.'' = ''.''"
    by (simp add: extname_def last_segment_def)
  have x2: "extname ''/sandbox/.env'' = []"
    by (simp add: extname_def last_segment_def)
  have l1: "String_toLowerCase example_env ''.'' = ''.''"
    unfolding example_lower by code_simp
  have l0: "String_toLowerCase example_env [] = []"
    unfolding example_lower by code_simp
  have m: "\<not> member_ignoring_case example_env ''.env''
      (allowedExtensions (new_PathValidator example_env))"
    unfolding member_ignoring_case_def equal_ignoring_case_def example_lower
      allowedExtensions_new
    by code_simp
  have n: "''.'' \<notin> set (allowedExtensions (new_PathValidator example_env))"
    by (simp add: allowedExtensions_new)
  show ?thesis
    by (simp add: spec_permits_def s1 s2 m validateFileExtension_def x1 x2 l1 l0 n)
qed

text \<open>
  C5, amended: the validator looks at the final path segment only, trailing separators
  ignored, and its extension is that of \<^verbatim>\<open>path.extname\<close>. A path is valid when it has no
  final segment, when the segment has no dot, is \<^verbatim>\<open>..\<close>, or has its only dot in front;
  otherwise the extension is the segment from its last dot on, the path is valid when the
  extension is in the constructor's list up to the case of its letters, and invalid
  otherwise, the error naming the extension in lower case. \<open>path_decompose\<close> shows
  that these cases cover every path.
\<close>

theorem validateFileExtension_spec:
  assumes "js_lowering (String_toLowerCase e)"
    and "base \<noteq> []" and "CHR ''/'' \<notin> set base" and "pre = [] \<or> last pre = CHR ''/''"
  shows
    "validateFileExtension (new_PathValidator e) e (replicate k CHR ''/'') =
       \<lparr> ext_isValid = True, ext_error = None \<rparr> \<and>
     (CHR ''.'' \<notin> set base \<or> base = ''..'' \<or> (base = CHR ''.'' # rest \<and> CHR ''.'' \<notin> set rest) \<longrightarrow>
        validateFileExtension (new_PathValidator e) e (pre @ base @ replicate k CHR ''/'') =
          \<lparr> ext_isValid = True, ext_error = None \<rparr>) \<and>
     (stem \<noteq> [] \<and> CHR ''.'' \<notin> set x \<and> base = stem @ CHR ''.'' # x \<and> base \<noteq> ''..'' \<longrightarrow>
        (member_ignoring_case e (CHR ''.'' # x) (allowedExtensions (new_PathValidator e)) \<longrightarrow>
           validateFileExtension (new_PathValidator e) e (pre @ base @ replicate k CHR ''/'') =
             \<lparr> ext_isValid = True, ext_error = None \<rparr>) \<and>
        (\<not> member_ignoring_case e (CHR ''.'' # x) (allowedExtensions (new_PathValidator e)) \<longrightarrow>
           validateFileExtension (new_PathValidator e) e (pre @ base @ replicate k CHR ''/'') =
             \<lparr> ext_isValid = False,
               ext_error = Some (BadExtension (String_toLowerCase e (CHR ''.'' # x))
                                  (allowedExtensions (new_PathValidator e))) \<rparr>))"
proof -
  let ?path = "pre @ base @ replicate k CHR ''/''"
  have empty: "String_toLowerCase e [] = []"
    using assms(1) by (simp add: js_lowering_def)
  have nonempty: "String_toLowerCase e (CHR ''.'' # x) \<noteq> []"
    using assms(1) by (simp add: js_lowering_def)
  have seg: "last_segment ?path = base"
    using assms(2-4) by (rule last_segment_decompose)
  have slashes: "validateFileExtension (new_PathValidator e) e (replicate k CHR ''/'') =
       \<lparr> ext_isValid = True, ext_error = None \<rparr>"
    using extname_no_dot[of "replicate k CHR ''/''"]
    by (simp add: validateFileExtension_def last_segment_slashes empty)
  have none: "validateFileExtension (new_PathValidator e) e ?path =
          \<lparr> ext_isValid = True, ext_error = None \<rparr>"
    if "CHR ''.'' \<notin> set base \<or> base = ''..'' \<or> (base = CHR ''.'' # rest \<and> CHR ''.'' \<notin> set rest)"
  proof -
    have "extname ?path = []"
      using that seg extname_no_dot[of ?path] extname_dotdot[of ?path]
        extname_dotfile[of ?path rest]
      by auto
    then show ?thesis by (simp add: validateFileExtension_def empty)
  qed
  have some: "extname ?path = CHR ''.'' # x"
    if h: "stem \<noteq> [] \<and> CHR ''.'' \<notin> set x \<and> base = stem @ CHR ''.'' # x \<and> base \<noteq> ''..''"
  proof -
    from h have h1: "base = stem @ CHR ''.'' # x" and h2: "base \<noteq> ''..''"
      and c: "stem \<noteq> []" "CHR ''.'' \<notin> set x"
      by blast+
    from seg h1 have a: "last_segment ?path = stem @ CHR ''.'' # x" by (simp only:)
    from seg h2 have b: "last_segment ?path \<noteq> ''..''" by simp
    from a c b show ?thesis by (rule extname_last_dot)
  qed
  have mem: "member_ignoring_case e (CHR ''.'' # x) (allowedExtensions (new_PathValidator e)) \<longleftrightarrow>
      String_toLowerCase e (CHR ''.'' # x) \<in> set (allowedExtensions (new_PathValidator e))"
    using assms(1) by (rule member_ignoring_case_lower)
  have ext:
    "(member_ignoring_case e (CHR ''.'' # x) (allowedExtensions (new_PathValidator e)) \<longrightarrow>
        validateFileExtension (new_PathValidator e) e ?path =
          \<lparr> ext_isValid = True, ext_error = None \<rparr>) \<and>
     (\<not> member_ignoring_case e (CHR ''.'' # x) (allowedExtensions (new_PathValidator e)) \<longrightarrow>
        validateFileExtension (new_PathValidator e) e ?path =
          \<lparr> ext_isValid = False,
            ext_error = Some (BadExtension (String_toLowerCase e (CHR ''.'' # x))
                               (allowedExtensions (new_PathValidator e))) \<rparr>)"
    if h: "stem \<noteq> [] \<and> CHR ''.'' \<notin> set x \<and> base = stem @ CHR ''.'' # x \<and> base \<noteq> ''..''"
  proof -
    have x: "extname ?path = CHR ''.'' # x" using h by (rule some)
    show ?thesis
      unfolding validateFileExtension_def x mem Let_def using nonempty by simp
  qed
  from slashes none ext show ?thesis by blast
qed

theorem validateFileExtension_spec_witness:
  "js_lowering (String_toLowerCase example_env) \<and>
   member_ignoring_case example_env ''.TXT'' (allowedExtensions (new_PathValidator example_env)) \<and>
   validateFileExtension (new_PathValidator example_env) example_env
       ''/home/u/Documents/00_AI_Area/Report.TXT'' =
     \<lparr> ext_isValid = True, ext_error = None \<rparr> \<and>
   \<not> member_ignoring_case example_env ''.EXE''
       (allowedExtensions (new_PathValidator example_env)) \<and>
   validateFileExtension (new_PathValidator example_env) example_env
       ''/home/u/Documents/00_AI_Area/tool.EXE'' =
     \<lparr> ext_isValid = False,
       ext_error = Some (BadExtension ''.exe''
                          (allowedExtensions (new_PathValidator example_env))) \<rparr> \<and>
   validateFileExtension (new_PathValidator example_env) example_env
       ''/home/u/Documents/00_AI_Area/dir.v2/README'' =
     \<lparr> ext_isValid = True, ext_error = None \<rparr> \<and>
   validateFileExtension (new_PathValidator example_env) example_env
       ''/home/u/Documents/00_AI_Area/.env'' =
     \<lparr> ext_isValid = True, ext_error = None \<rparr>"
proof -
  have m2: "member_ignoring_case example_env ''.TXT''
      (allowedExtensions (new_PathValidator example_env))"
    unfolding member_ignoring_case_def equal_ignoring_case_def example_lower
      allowedExtensions_new
    by code_simp
  have m3: "\<not> member_ignoring_case example_env ''.EXE''
      (allowedExtensions (new_PathValidator example_env))"
    unfolding member_ignoring_case_def equal_ignoring_case_def example_lower
      allowedExtensions_new
    by code_simp
  have l3: "String_toLowerCase example_env ''.EXE'' = ''.exe''"
    unfolding example_lower by code_simp
  show ?thesis
    using validateFileExtension_spec
        [where e = example_env and pre = "''/home/u/Documents/00_AI_Area/''"
           and base = "''Report.TXT''" and k = 0 and stem = "''Report''" and x = "''TXT''"]
      validateFileExtension_spec
        [where e = example_env and pre = "''/home/u/Documents/00_AI_Area/''"
           and base = "''tool.EXE''" and k = 0 and stem = "''tool''" and x = "''EXE''"]
      validateFileExtension_spec
        [where e = example_env and pre = "''/home/u/Documents/00_AI_Area/dir.v2/''"
           and base = "''README''" and k = 0]
      validateFileExtension_spec
        [where e = example_env and pre = "''/home/u/Documents/00_AI_Area/''"
           and base = "''.env''" and k = 0 and rest = "''env''"]
      example_js_lowering m2 m3 l3
    by simp
qed

section \<open>System information\<close>

lemma Math_round_GiB:
  "Math_round (real m / 1024 / 1024 / 1024) = int ((m + 2 ^ 29) div 2 ^ 30)"
proof -
  have "real m / 1024 / 1024 / 1024 + 1 / 2 = real (m + 2 ^ 29) / real (2 ^ 30)"
    by (simp add: field_simps)
  then have "Math_round (real m / 1024 / 1024 / 1024) = \<lfloor>real (m + 2 ^ 29) / real (2 ^ 30)\<rfloor>"
    unfolding Math_round_def by presburger
  then show ?thesis
    by (simp only: floor_divide_of_nat_eq)
qed

text \<open>
  C9: \<open>getSystemInfo\<close> takes no validator and no path; it returns the platform, the
  architecture, the release, the host name, the uptime in whole hours rounded down, the
  total and the free memory rounded to the nearest whole gigabyte (of \<open>2 ^ 30\<close> bytes),
  the number of CPUs and the home and temporary directories, and leaves the file system
  as it was. The dispatcher calls it whatever the validator and the arguments are.
\<close>

theorem getSystemInfo_spec:
  "getSystemInfo e w =
     (Inr \<lparr> content =
             [SystemInfoText
                \<lparr> platform = os_platform e, arch = os_arch e, release = os_release e,
                  hostname = os_hostname e,
                  uptime = \<lfloor>os_uptime e / 3600\<rfloor>,
                  memory_total = int ((os_totalmem e + 2 ^ 29) div 2 ^ 30),
                  memory_free = int ((os_freemem e + 2 ^ 29) div 2 ^ 30),
                  cpus = os_cpus e, homeDir = os_homedir e, tmpDir = os_tmpdir e \<rparr>],
            isError = False \<rparr>, w) \<and>
   of_int \<lfloor>os_uptime e / 3600\<rfloor> * 3600 \<le> os_uptime e \<and>
   os_uptime e < (of_int \<lfloor>os_uptime e / 3600\<rfloor> + 1) * 3600 \<and>
   dispatch fs pv e w ''get_system_info'' a = getSystemInfo e w"
proof -
  have "of_int \<lfloor>os_uptime e / 3600\<rfloor> * 3600 \<le> os_uptime e"
    by (rule floor_divide_lower) simp
  moreover have "os_uptime e < (of_int \<lfloor>os_uptime e / 3600\<rfloor> + 1) * 3600"
    by (rule floor_divide_upper) simp
  moreover have "dispatch fs pv e w ''get_system_info'' a = getSystemInfo e w"
    by (simp add: dispatch_def)
  ultimately show ?thesis
    unfolding getSystemInfo_def Math_round_GiB Math_floor_def Let_def by simp
qed

theorem getSystemInfo_spec_witness:
  "getSystemInfo example_env example_world =
     (Inr \<lparr> content =
             [SystemInfoText
                \<lparr> platform = ''linux'', arch = ''x64'', release = ''6.1.0'',
                  hostname = ''box'', uptime = 2, memory_total = 15, memory_free = 0,
                  cpus = 8, homeDir = ''/home/u'', tmpDir = ''/tmp'' \<rparr>],
            isError = False \<rparr>, example_world)"
  using getSystemInfo_spec [where e = example_env and w = example_world and fs = mem_fs
       and pv = sandbox_validator and a = Map.empty]
  by (simp add: example_env_def)

section \<open>Evaluations on the example host\<close>

lemma example_cwd_absolute: "isAbsolute (process_cwd example_env)"
  by (simp add: isAbsolute_def example_env_def)

lemma example_validate_etc:
  "validatePath (new_PathValidator example_env) example_env (JStr ''/etc/passwd'') =
     \<lparr> isValid = False, normalizedPath = JStr ''/etc/passwd'', error = Some (Forbidden ''/etc'') \<rparr>"
  by (simp add: validatePath_def new_PathValidator_def example_env_def path_resolve_def
      normalizeString_def startsWith_def)

lemma example_validate_exe:
  "validatePath (new_PathValidator example_env) example_env (JStr ''bin/run.exe'') =
     \<lparr> isValid = True, normalizedPath = JStr ''/home/u/Documents/00_AI_Area/bin/run.exe'',
       error = None \<rparr>"
  by (simp add: validatePath_def new_PathValidator_def example_env_def path_resolve_def
      normalizeString_def startsWith_def)

lemma example_validate_missing:
  "validatePath (new_PathValidator example_env) example_env (JStr ''missing.txt'') =
     \<lparr> isValid = True, normalizedPath = JStr ''/home/u/Documents/00_AI_Area/missing.txt'',
       error = None \<rparr>"
  by (simp add: validatePath_def new_PathValidator_def example_env_def path_resolve_def
      normalizeString_def startsWith_def)

lemma example_validate_notes:
  "validatePath (new_PathValidator example_env) example_env (JStr ''notes.txt'') =
     \<lparr> isValid = True, normalizedPath = JStr ''/home/u/Documents/00_AI_Area/notes.txt'',
       error = None \<rparr>"
  by (simp add: validatePath_def new_PathValidator_def example_env_def path_resolve_def
      normalizeString_def startsWith_def)

lemma example_validate_target:
  "validatePath (new_PathValidator example_env) example_env
       (JStr ''/home/u/Documents/00_AI_Area/demo.exe'') =
     \<lparr> isValid = True, normalizedPath = JStr ''/home/u/Documents/00_AI_Area/demo.exe'',
       error = None \<rparr>"
  "validatePath (new_PathValidator example_env) example_env
       (JStr ''/home/u/Documents/00_AI_Area/sample.txt'') =
     \<lparr> isValid = True, normalizedPath = JStr ''/home/u/Documents/00_AI_Area/sample.txt'',
       error = None \<rparr>"
  by (simp_all add: validatePath_def new_PathValidator_def example_env_def path_resolve_def
      normalizeString_def startsWith_def)

lemma example_ext_exe:
  "validateFileExtension (new_PathValidator example_env) example_env
     ''/home/u/Documents/00_AI_Area/bin/run.exe'' =
     \<lparr> ext_isValid = False,
       ext_error = Some (BadExtension ''.exe''
         (allowedExtensions (new_PathValidator example_env))) \<rparr>"
proof -
  have "extname ''/home/u/Documents/00_AI_Area/bin/run.exe'' = ''.exe''"
    by (simp add: extname_def last_segment_def)
  moreover have "String_toLowerCase example_env ''.exe'' = ''.exe''"
    unfolding example_lower by code_simp
  moreover have "''.exe'' \<notin> set (allowedExtensions (new_PathValidator example_env))"
    by (simp add: allowedExtensions_new)
  ultimately show ?thesis by (simp add: validateFileExtension_def)
qed

lemma example_ext_txt:
  "validateFileExtension (new_PathValidator example_env) example_env
     ''/home/u/Documents/00_AI_Area/missing.txt'' = \<lparr> ext_isValid = True, ext_error = None \<rparr>"
  "validateFileExtension (new_PathValidator example_env) example_env
     ''/home/u/Documents/00_AI_Area/notes.txt'' = \<lparr> ext_isValid = True, ext_error = None \<rparr>"
proof -
  have "extname ''/home/u/Documents/00_AI_Area/missing.txt'' = ''.txt''"
    "extname ''/home/u/Documents/00_AI_Area/notes.txt'' = ''.txt''"
    by (simp_all add: extname_def last_segment_def)
  moreover have "String_toLowerCase example_env ''.txt'' = ''.txt''"
    unfolding example_lower by code_simp
  ultimately show
    "validateFileExtension (new_PathValidator example_env) example_env
       ''/home/u/Documents/00_AI_Area/missing.txt'' = \<lparr> ext_isValid = True, ext_error = None \<rparr>"
    "validateFileExtension (new_PathValidator example_env) example_env
       ''/home/u/Documents/00_AI_Area/notes.txt'' = \<lparr> ext_isValid = True, ext_error = None \<rparr>"
    by (simp_all add: validateFileExtension_def allowedExtensions_new)
qed

lemma example_ext_target:
  "\<not> ext_isValid (validateFileExtension (new_PathValidator example_env) example_env
       ''/home/u/Documents/00_AI_Area/demo.exe'')"
proof -
  have "extname ''/home/u/Documents/00_AI_Area/demo.exe'' = ''.exe''"
    by (simp add: extname_def last_segment_def)
  moreover have "String_toLowerCase example_env ''.exe'' = ''.exe''"
    unfolding example_lower by code_simp
  ultimately show ?thesis by (simp add: validateFileExtension_def allowedExtensions_new)
qed

lemma example_read:
  "fs_readFile mem_fs example_world ''/home/u/Documents/00_AI_Area/missing.txt'' =
     Inl (JsSystemError ''ENOENT'')"
  "fs_readFile mem_fs example_world ''/home/u/Documents/00_AI_Area/notes.txt'' = Inr ''hello''"
  by (simp_all add: mem_fs_def mem_readFile_def example_world_def)

lemma example_target:
  "path_resolve example_env [process_cwd example_env, ''demo.exe''] =
     ''/home/u/Documents/00_AI_Area/demo.exe''"
  "path_resolve example_env [process_cwd example_env, ''sample.txt''] =
     ''/home/u/Documents/00_AI_Area/sample.txt''"
  by (simp_all add: example_env_def path_resolve_def normalizeString_def)

lemma example_write:
  "fs_writeFile mem_fs example_world ''/home/u/Documents/00_AI_Area/demo.exe'' (JStr c) =
     (None, example_world\<lparr> mem_files :=
        (''/home/u/Documents/00_AI_Area/demo.exe'', c) # mem_files example_world \<rparr>)"
  "fs_writeFile mem_fs example_world ''/home/u/Documents/00_AI_Area/sample.txt'' (JStr c) =
     (None, example_world\<lparr> mem_files :=
        (''/home/u/Documents/00_AI_Area/sample.txt'', c) # mem_files example_world \<rparr>)"
  by (simp_all add: mem_fs_def example_world_def dirname_def)

section \<open>The sample file\<close>

text \<open>
  C6: \<open>createSampleFile\<close> without a file name behaves as with \<^verbatim>\<open>sample.txt\<close>. The target
  is the name resolved against the working directory; it is validated by
  \<open>validatePath\<close> and by nothing else (the extension of the target plays no part); the
  content handed to \<^verbatim>\<open>fs.writeFile\<close> is the template \<open>sampleContent\<close>, and the result
  carries that same content. When the validation fails, or the write fails, the tool
  throws and the file system is as the failed call left it.
\<close>

theorem createSampleFile_spec:
  assumes "isAbsolute (process_cwd e)"
    and "s \<noteq> []"
    and "target = path_resolve e [process_cwd e, s]"
    and "v = validatePath pv e (JStr target)"
  shows "createSampleFile fs pv e w JUndefined = createSampleFile fs pv e w (JStr ''sample.txt'') \<and>
         dispatch fs pv e w ''create_sample_file'' a = createSampleFile fs pv e w (arg a ''filename'') \<and>
         normalizedPath v = JStr target \<and>
         (\<not> isValid v \<longrightarrow>
            createSampleFile fs pv e w (JStr s) =
              (Inl (JsError (SampleFailed (JsError (error_message (error v))))), w)) \<and>
         (isValid v \<and> fs_writeFile fs w target (JStr (sampleContent e)) = (None, w') \<longrightarrow>
            createSampleFile fs pv e w (JStr s) =
              (Inr \<lparr> content = [SampleText target (sampleContent e)], isError = False \<rparr>, w')) \<and>
         (isValid v \<and> fs_writeFile fs w target (JStr (sampleContent e)) = (Some err, w') \<longrightarrow>
            createSampleFile fs pv e w (JStr s) = (Inl (JsError (SampleFailed err)), w'))"
proof -
  have fixed: "path_resolve e [target] = target"
    unfolding assms(3) using assms(1) by (rule path_resolve_idem)
  have np: "normalizedPath v = JStr target"
    using fixed
    by (auto simp: assms(4) validatePath_def blocked_loop_find Let_def split: option.splits)
  have d: "createSampleFile fs pv e w JUndefined = createSampleFile fs pv e w (JStr ''sample.txt'')"
    by (simp add: createSampleFile_def)
  have disp: "dispatch fs pv e w ''create_sample_file'' a =
      createSampleFile fs pv e w (arg a ''filename'')"
    by (simp add: dispatch_def)
  have bad: "\<not> isValid v \<longrightarrow>
            createSampleFile fs pv e w (JStr s) =
              (Inl (JsError (SampleFailed (JsError (error_message (error v))))), w)"
    using assms(2) by (simp add: createSampleFile_def assms(3)[symmetric] assms(4)[symmetric])
  have ok: "isValid v \<and> fs_writeFile fs w target (JStr (sampleContent e)) = (None, w') \<longrightarrow>
            createSampleFile fs pv e w (JStr s) =
              (Inr \<lparr> content = [SampleText target (sampleContent e)], isError = False \<rparr>, w')"
    using assms(2) np
    by (simp add: createSampleFile_def assms(3)[symmetric] assms(4)[symmetric])
  have fail: "isValid v \<and> fs_writeFile fs w target (JStr (sampleContent e)) = (Some err, w') \<longrightarrow>
            createSampleFile fs pv e w (JStr s) = (Inl (JsError (SampleFailed err)), w')"
    using assms(2) np
    by (simp add: createSampleFile_def assms(3)[symmetric] assms(4)[symmetric])
  from d disp np bad ok fail show ?thesis by blast
qed

theorem createSampleFile_spec_witness:
  "isAbsolute (process_cwd example_env) \<and>
   path_resolve example_env [process_cwd example_env, ''demo.exe''] =
     ''/home/u/Documents/00_AI_Area/demo.exe'' \<and>
   isValid (validatePath (new_PathValidator example_env) example_env
       (JStr ''/home/u/Documents/00_AI_Area/demo.exe'')) \<and>
   \<not> ext_isValid (validateFileExtension (new_PathValidator example_env) example_env
       ''/home/u/Documents/00_AI_Area/demo.exe'') \<and>
   createSampleFile mem_fs (new_PathValidator example_env) example_env example_world
       (JStr ''demo.exe'') =
     (Inr \<lparr> content = [SampleText ''/home/u/Documents/00_AI_Area/demo.exe''
                         (sampleContent example_env)],
            isError = False \<rparr>,
      example_world\<lparr> mem_files :=
        (''/home/u/Documents/00_AI_Area/demo.exe'', sampleContent example_env) #
        mem_files example_world \<rparr>) \<and>
   createSampleFile mem_fs (new_PathValidator example_env) example_env example_world
       JUndefined =
     (Inr \<lparr> content = [SampleText ''/home/u/Documents/00_AI_Area/sample.txt''
                         (sampleContent example_env)],
            isError = False \<rparr>,
      example_world\<lparr> mem_files :=
        (''/home/u/Documents/00_AI_Area/sample.txt'', sampleContent example_env) #
        mem_files example_world \<rparr>)"
  using createSampleFile_spec
      [where e = example_env and s = "''demo.exe''"
         and target = "''/home/u/Documents/00_AI_Area/demo.exe''"
         and v = "validatePath (new_PathValidator example_env) example_env
                    (JStr ''/home/u/Documents/00_AI_Area/demo.exe'')"
         and pv = "new_PathValidator example_env" and fs = mem_fs and w = example_world
         and w' = "example_world\<lparr> mem_files :=
             (''/home/u/Documents/00_AI_Area/demo.exe'', sampleContent example_env) #
             mem_files example_world \<rparr>"]
    createSampleFile_spec
      [where e = example_env and s = "''sample.txt''"
         and target = "''/home/u/Documents/00_AI_Area/sample.txt''"
         and v = "validatePath (new_PathValidator example_env) example_env
                    (JStr ''/home/u/Documents/00_AI_Area/sample.txt'')"
         and pv = "new_PathValidator example_env" and fs = mem_fs and w = example_world
         and w' = "example_world\<lparr> mem_files :=
             (''/home/u/Documents/00_AI_Area/sample.txt'', sampleContent example_env) #
             mem_files example_world \<rparr>"]
  by (simp add: example_cwd_absolute example_target example_validate_target example_ext_target
      example_write)

section \<open>Reading a file\<close>

text \<open>
  C7: a \<^verbatim>\<open>read_file\<close> call validates the path first and the extension of the normalized
  path second; a failure of \<^verbatim>\<open>fs.readFile\<close> comes back as a result with
  \<open>isError = True\<close> that carries the error of the file system. The handler returns in
  every case and leaves the file system as it was, so the requests that follow are
  served as if the failed one had not been made.
\<close>

theorem read_file_spec:
  assumes "tool req = ''read_file''"
    and "arguments req = Some a"
    and "v = validatePath pv e (arg a ''filepath'')"
  shows "(\<not> isValid v \<longrightarrow>
            handleCallTool fs pv e w req =
              (\<lparr> content = [ErrorText (ReadFailed (JsError (error_message (error v))))],
                 isError = True \<rparr>, w)) \<and>
         (isValid v \<and> normalizedPath v = JStr n \<and> \<not> ext_isValid (validateFileExtension pv e n) \<longrightarrow>
            handleCallTool fs pv e w req =
              (\<lparr> content = [ErrorText (ReadFailed (JsError
                    (error_message (ext_error (validateFileExtension pv e n)))))],
                 isError = True \<rparr>, w)) \<and>
         (isValid v \<and> normalizedPath v = JStr n \<and> ext_isValid (validateFileExtension pv e n) \<and>
            fs_readFile fs w n = Inl err \<longrightarrow>
            handleCallTool fs pv e w req =
              (\<lparr> content = [ErrorText (ReadFailed err)], isError = True \<rparr>, w)) \<and>
         (isValid v \<and> normalizedPath v = JStr n \<and> ext_isValid (validateFileExtension pv e n) \<and>
            fs_readFile fs w n = Inr c \<longrightarrow>
            handleCallTool fs pv e w req =
              (\<lparr> content = [FileText n c], isError = False \<rparr>, w)) \<and>
         serve fs pv e w (req # reqs) =
           fst (handleCallTool fs pv e w req) # serve fs pv e w reqs"
proof -
  have w: "snd (readFile fs pv e w x) = w" for x
    by (simp add: readFile_def Let_def split: sum.splits)
  have h: "handleCallTool fs pv e w req =
      (case readFile fs pv e w (arg a ''filepath'') of
         (Inl err, w') \<Rightarrow> (\<lparr> content = [ErrorText (exn_message err)], isError = True \<rparr>, w')
       | (Inr r, w') \<Rightarrow> (r, w'))"
    using assms(1,2) by (simp add: handleCallTool_def dispatch_def)
  have s: "snd (handleCallTool fs pv e w req) = w"
    using w[of "arg a ''filepath''"] unfolding h
    by (cases "readFile fs pv e w (arg a ''filepath'')") (auto split: sum.splits)
  have "serve fs pv e w (req # reqs) =
           fst (handleCallTool fs pv e w req) # serve fs pv e w reqs"
    using s by (cases "handleCallTool fs pv e w req") simp
  moreover have "\<not> isValid v \<longrightarrow>
            handleCallTool fs pv e w req =
              (\<lparr> content = [ErrorText (ReadFailed (JsError (error_message (error v))))],
                 isError = True \<rparr>, w)"
    unfolding h by (simp add: readFile_def assms(3)[symmetric])
  moreover have "isValid v \<and> normalizedPath v = JStr n \<and> \<not> ext_isValid (validateFileExtension pv e n) \<longrightarrow>
            handleCallTool fs pv e w req =
              (\<lparr> content = [ErrorText (ReadFailed (JsError
                    (error_message (ext_error (validateFileExtension pv e n)))))],
                 isError = True \<rparr>, w)"
    unfolding h by (simp add: readFile_def assms(3)[symmetric])
  moreover have "isValid v \<and> normalizedPath v = JStr n \<and> ext_isValid (validateFileExtension pv e n) \<and>
            fs_readFile fs w n = Inl err \<longrightarrow>
            handleCallTool fs pv e w req =
              (\<lparr> content = [ErrorText (ReadFailed err)], isError = True \<rparr>, w)"
    unfolding h by (simp add: readFile_def assms(3)[symmetric])
  moreover have "isValid v \<and> normalizedPath v = JStr n \<and> ext_isValid (validateFileExtension pv e n) \<and>
            fs_readFile fs w n = Inr c \<longrightarrow>
            handleCallTool fs pv e w req =
              (\<lparr> content = [FileText n c], isError = False \<rparr>, w)"
    unfolding h by (simp add: readFile_def assms(3)[symmetric])
  ultimately show ?thesis by blast
qed

theorem read_file_spec_witness:
  "handleCallTool mem_fs (new_PathValidator example_env) example_env example_world
      \<lparr> tool = ''read_file'', arguments = Some [''filepath'' \<mapsto> JStr ''missing.txt''] \<rparr> =
     (\<lparr> content = [ErrorText (ReadFailed (JsSystemError ''ENOENT''))], isError = True \<rparr>,
      example_world) \<and>
   serve mem_fs (new_PathValidator example_env) example_env example_world
      [\<lparr> tool = ''read_file'', arguments = Some [''filepath'' \<mapsto> JStr ''missing.txt''] \<rparr>,
       \<lparr> tool = ''read_file'', arguments = Some [''filepath'' \<mapsto> JStr ''notes.txt''] \<rparr>] =
     [\<lparr> content = [ErrorText (ReadFailed (JsSystemError ''ENOENT''))], isError = True \<rparr>,
      \<lparr> content = [FileText ''/home/u/Documents/00_AI_Area/notes.txt'' ''hello''],
        isError = False \<rparr>]"
  using read_file_spec
      [where req = "\<lparr> tool = ''read_file'',
                      arguments = Some [''filepath'' \<mapsto> JStr ''missing.txt''] \<rparr>"
         and a = "[''filepath'' \<mapsto> JStr ''missing.txt'']"
         and v = "validatePath (new_PathValidator example_env) example_env (JStr ''missing.txt'')"
         and pv = "new_PathValidator example_env" and e = example_env
         and n = "''/home/u/Documents/00_AI_Area/missing.txt''" and fs = mem_fs
         and w = example_world and err = "JsSystemError ''ENOENT''"
         and reqs = "[\<lparr> tool = ''read_file'',
                         arguments = Some [''filepath'' \<mapsto> JStr ''notes.txt''] \<rparr>]"]
    read_file_spec
      [where req = "\<lparr> tool = ''read_file'',
                      arguments = Some [''filepath'' \<mapsto> JStr ''notes.txt''] \<rparr>"
         and a = "[''filepath'' \<mapsto> JStr ''notes.txt'']"
         and v = "validatePath (new_PathValidator example_env) example_env (JStr ''notes.txt'')"
         and pv = "new_PathValidator example_env" and e = example_env
         and n = "''/home/u/Documents/00_AI_Area/notes.txt''" and fs = mem_fs
         and w = example_world and c = "''hello''" and reqs = "[]"]
  by (simp add: arg_def example_validate_missing example_validate_notes example_ext_txt
      example_read)

section \<open>Unknown tools and thrown errors\<close>

text \<open>
  C8, as stated: every call of a tool that is not registered gets an error result naming
  the tool. A call that carries no arguments object is answered "No arguments provided"
  before the tool's name is looked at.
\<close>

theorem unknown_tool_counterexample:
  "''delete_file'' \<notin> set TOOLS \<and>
   handleCallTool mem_fs (new_PathValidator example_env) example_env example_world
       \<lparr> tool = ''delete_file'', arguments = None \<rparr>
     = (\<lparr> content = [NoArgumentsText], isError = True \<rparr>, example_world) \<and>
   NoArgumentsText \<noteq> ErrorText (UnknownTool ''delete_file'')"
  by (simp add: TOOLS_def handleCallTool_def)

text \<open>
  C8, amended: a call of a tool that is not registered gets an error result and leaves
  the file system as it was; the result names the tool when the call carries an
  arguments object, and is "No arguments provided" when it carries none. Whatever a tool
  throws, the handler returns an error result with the thrown value's message.
\<close>

theorem unknown_tool_error_result:
  "(tool req \<notin> set TOOLS \<longrightarrow>
      handleCallTool fs pv e w req =
        (case arguments req of
           None \<Rightarrow> (\<lparr> content = [NoArgumentsText], isError = True \<rparr>, w)
         | Some a \<Rightarrow> (\<lparr> content = [ErrorText (UnknownTool (tool req))], isError = True \<rparr>, w))) \<and>
   (arguments req = Some a \<and> dispatch fs pv e w (tool req) a = (Inl err, w') \<longrightarrow>
      handleCallTool fs pv e w req =
        (\<lparr> content = [ErrorText (exn_message err)], isError = True \<rparr>, w'))"
  by (auto simp: handleCallTool_def dispatch_def TOOLS_def split: option.splits)

theorem unknown_tool_error_result_witness:
  "''delete_file'' \<notin> set TOOLS \<and>
   handleCallTool mem_fs (new_PathValidator example_env) example_env example_world
      \<lparr> tool = ''delete_file'', arguments = Some [''filepath'' \<mapsto> JStr ''notes.txt''] \<rparr> =
     (\<lparr> content = [ErrorText (UnknownTool ''delete_file'')], isError = True \<rparr>, example_world) \<and>
   dispatch mem_fs (new_PathValidator example_env) example_env example_world ''list_directory''
      [''dirpath'' \<mapsto> JStr ''/etc''] =
     (Inl (JsError (ListFailed (JsError (Forbidden ''/etc'')))), example_world) \<and>
   handleCallTool mem_fs (new_PathValidator example_env) example_env example_world
      \<lparr> tool = ''list_directory'', arguments = Some [''dirpath'' \<mapsto> JStr ''/etc''] \<rparr> =
     (\<lparr> content = [ErrorText (ListFailed (JsError (Forbidden ''/etc'')))], isError = True \<rparr>,
      example_world)"
proof -
  have v: "validatePath (new_PathValidator example_env) example_env (JStr ''/etc'') =
     \<lparr> isValid = False, normalizedPath = JStr ''/etc'', error = Some (Forbidden ''/etc'') \<rparr>"
    by (simp add: validatePath_def new_PathValidator_def example_env_def path_resolve_def
        normalizeString_def startsWith_def Let_def)
  have d: "dispatch mem_fs (new_PathValidator example_env) example_env example_world
      ''list_directory'' [''dirpath'' \<mapsto> JStr ''/etc''] =
     (Inl (JsError (ListFailed (JsError (Forbidden ''/etc'')))), example_world)"
    by (simp add: dispatch_def listDirectory_def arg_def v)
  show ?thesis
    using unknown_tool_error_result
        [where req = "\<lparr> tool = ''delete_file'',
                        arguments = Some [''filepath'' \<mapsto> JStr ''notes.txt''] \<rparr>"
           and fs = mem_fs and pv = "new_PathValidator example_env" and e = example_env
           and w = example_world]
      unknown_tool_error_result
        [where req = "\<lparr> tool = ''list_directory'',
                        arguments = Some [''dirpath'' \<mapsto> JStr ''/etc''] \<rparr>"
           and a = "[''dirpath'' \<mapsto> JStr ''/etc'']"
           and fs = mem_fs and pv = "new_PathValidator example_env" and e = example_env
           and w = example_world and err = "JsError (ListFailed (JsError (Forbidden ''/etc'')))"
           and w' = example_world]
      d
    by (simp add: TOOLS_def)
qed

section \<open>Writing a file\<close>

text \<open>
  C10: when the path or the extension of a \<^verbatim>\<open>write_file\<close> call is refused, the handler
  returns an error result and the file system is unchanged, whatever \<^verbatim>\<open>fs.mkdir\<close> and
  \<^verbatim>\<open>fs.writeFile\<close> would do: neither is called.
\<close>

theorem write_file_denied_no_change:
  assumes "tool req = ''write_file''"
    and "arguments req = Some a"
    and "v = validatePath pv e (arg a ''filepath'')"
  shows "(\<not> isValid v \<longrightarrow>
            handleCallTool fs pv e w req =
              (\<lparr> content = [ErrorText (WriteFailed (JsError (error_message (error v))))],
                 isError = True \<rparr>, w)) \<and>
         (isValid v \<and> normalizedPath v = JStr n \<and> \<not> ext_isValid (validateFileExtension pv e n) \<longrightarrow>
            handleCallTool fs pv e w req =
              (\<lparr> content = [ErrorText (WriteFailed (JsError
                    (error_message (ext_error (validateFileExtension pv e n)))))],
                 isError = True \<rparr>, w))"
proof -
  have h: "handleCallTool fs pv e w req =
      (case writeFile fs pv e w (arg a ''filepath'') (arg a ''content'') of
         (Inl err, w') \<Rightarrow> (\<lparr> content = [ErrorText (exn_message err)], isError = True \<rparr>, w')
       | (Inr r, w') \<Rightarrow> (r, w'))"
    using assms(1,2) by (simp add: handleCallTool_def dispatch_def)
  have "\<not> isValid v \<longrightarrow>
            handleCallTool fs pv e w req =
              (\<lparr> content = [ErrorText (WriteFailed (JsError (error_message (error v))))],
                 isError = True \<rparr>, w)"
    unfolding h by (simp add: writeFile_def assms(3)[symmetric])
  moreover have "isValid v \<and> normalizedPath v = JStr n \<and>
            \<not> ext_isValid (validateFileExtension pv e n) \<longrightarrow>
            handleCallTool fs pv e w req =
              (\<lparr> content = [ErrorText (WriteFailed (JsError
                    (error_message (ext_error (validateFileExtension pv e n)))))],
                 isError = True \<rparr>, w)"
    unfolding h by (simp add: writeFile_def assms(3)[symmetric])
  ultimately show ?thesis by blast
qed

theorem write_file_denied_no_change_witness:
  "handleCallTool mem_fs (new_PathValidator example_env) example_env example_world
      \<lparr> tool = ''write_file'',
        arguments = Some [''filepath'' \<mapsto> JStr ''/etc/passwd'', ''content'' \<mapsto> JStr ''x''] \<rparr> =
     (\<lparr> content = [ErrorText (WriteFailed (JsError (Forbidden ''/etc'')))], isError = True \<rparr>,
      example_world) \<and>
   handleCallTool mem_fs (new_PathValidator example_env) example_env example_world
      \<lparr> tool = ''write_file'',
        arguments = Some [''filepath'' \<mapsto> JStr ''bin/run.exe'', ''content'' \<mapsto> JStr ''x''] \<rparr> =
     (\<lparr> content = [ErrorText (WriteFailed (JsError (BadExtension ''.exe''
          (allowedExtensions (new_PathValidator example_env)))))], isError = True \<rparr>,
      example_world)"
  using write_file_denied_no_change
      [where req = "\<lparr> tool = ''write_file'',
             arguments = Some [''filepath'' \<mapsto> JStr ''/etc/passwd'', ''content'' \<mapsto> JStr ''x''] \<rparr>"
         and a = "[''filepath'' \<mapsto> JStr ''/etc/passwd'', ''content'' \<mapsto> JStr ''x'']"
         and v = "validatePath (new_PathValidator example_env) example_env (JStr ''/etc/passwd'')"
         and pv = "new_PathValidator example_env" and e = example_env
         and n = "''/etc/passwd''" and fs = mem_fs and w = example_world]
    write_file_denied_no_change
      [where req = "\<lparr> tool = ''write_file'',
             arguments = Some [''filepath'' \<mapsto> JStr ''bin/run.exe'', ''content'' \<mapsto> JStr ''x''] \<rparr>"
         and a = "[''filepath'' \<mapsto> JStr ''bin/run.exe'', ''content'' \<mapsto> JStr ''x'']"
         and v = "validatePath (new_PathValidator example_env) example_env (JStr ''bin/run.exe'')"
         and pv = "new_PathValidator example_env" and e = example_env
         and n = "''/home/u/Documents/00_AI_Area/bin/run.exe''" and fs = mem_fs
         and w = example_world]
  by (simp add: arg_def example_validate_etc example_validate_exe example_ext_exe)

end
